theory Spec2Isabelle
  imports Main "HOL-Library.Multiset"
begin

section \<open>Values, names and the launch tree\<close>

text \<open>
  The development embeds \<^verbatim>\<open>haros/config_builder.py\<close>: the class \<^verbatim>\<open>LaunchScope\<close>
  and the class \<^verbatim>\<open>ConfigurationBuilder\<close>. Python objects that are mutated and shared
  (dictionaries, parameter lists, node instances, links) live in an explicit store,
  addressed by their position; immutable data is passed by value. Every \<^verbatim>\<open>raise\<close> of
  the source, and every exception the interpreter raises on the way, is an outcome of
  the model.
\<close>

datatype exn =
    ConfigurationError string
  | SubstitutionError string
  | ValueError string
  | ParserError string
  | YAMLError string
  | NameError string
  | AttributeError string
  | TypeError string
  | IndexError
  | AssertionError
  | RuntimeError string

text \<open>Python values as a parameter can hold them; a dictionary keeps its iteration order.\<close>

datatype pyval = VNone | VBool bool | VInt int | VFloat string | VStr string
  | VList "pyval list" | VDict "(string \<times> pyval) list"

text \<open>
  The value \<^verbatim>\<open>_condition\<close> returns: \<^verbatim>\<open>True\<close>, \<^verbatim>\<open>False\<close> or a
  \<^verbatim>\<open>SourceCondition\<close> carrying the expression and a location. Condition lists hold
  whatever was appended to them.
\<close>

datatype condition = CTrue | CFalse | SourceCondition string string

text \<open>
  A \<^verbatim>\<open>RosName\<close> object, read through its attributes. The class is defined in
  the metamodel module, whose source is missing; its constructor is a parameter of the
  model (see \<open>ctx\<close> below).
\<close>

record rosname =
  given :: "string option"
  full :: string
  own :: string
  is_private :: bool

text \<open>
  A tag of the parsed launch tree: its tag name, its \<^verbatim>\<open>(polarity, expression)\<close>
  condition, its attributes by name (an absent attribute reads \<^verbatim>\<open>None\<close>), its text
  and its children.
\<close>

datatype tag = Tag (t_tag: string) (t_condition: "bool \<times> string")
  (t_attrs: "(string \<times> string) list") (t_text: string) (t_children: "tag list")

definition attr :: "tag \<Rightarrow> string \<Rightarrow> string option" where
  "attr t k = map_of (t_attrs t) k"

record launch_file =
  lf_id :: string
  lf_language :: string
  lf_tree :: "tag list option"
  lf_dir_path :: string
  lf_dirname :: string
  lf_location :: string

record call =
  c_name :: string
  c_namespace :: "string option"
  c_type :: string
  c_queue_size :: "int option"
  c_conditions :: "condition list"

record node_template =
  n_name :: string
  n_package :: string
  n_rosname :: rosname
  n_advertise :: "call list"
  n_subscribe :: "call list"
  n_service :: "call list"
  n_client :: "call list"

record parameter =
  p_rosname :: rosname
  p_type :: "string option"
  p_value :: pyval
  p_node_scope :: bool
  p_conditions :: "condition list"

text \<open>
  A node instance. Its remap table is a dictionary of the store; its link lists hold
  the addresses of its links. The condition list is fixed once \<^verbatim>\<open>make_node\<close> has
  returned, so it is kept by value. The list \<^verbatim>\<open>instances\<close> of the template, to
  which \<^verbatim>\<open>make_node\<close> appends the instance, is never read and is left out.
\<close>

record node_instance =
  i_rosname :: rosname
  i_node :: node_template
  i_launch :: string
  i_argv :: "string option"
  i_remaps :: nat
  i_conditions :: "condition list"
  i_publishers :: "nat list"
  i_subscribers :: "nat list"
  i_servers :: "nat list"
  i_clients :: "nat list"

text \<open>
  A link (\<^verbatim>\<open>PubSubPrimitive\<close>, \<^verbatim>\<open>ServicePrimitive\<close>): the address of its node
  instance, the resolved name under which its topic or service is filed, the type and
  name of the call site, and its own condition list, which starts as the conditions
  of the call and which \<^verbatim>\<open>_update_topic_conditions\<close> can extend in place.
\<close>

record link =
  l_node :: nat
  l_target :: string
  l_type :: string
  l_rosname :: rosname
  l_queue :: "int option"
  l_conditions :: "condition list"

record resource =
  r_rosname :: rosname
  r_type :: string
  r_conditions :: "condition list"

record topic = resource +
  publishers :: "nat list"
  subscribers :: "nat list"

record service = resource +
  server :: "nat option"
  clients :: "nat list"

definition Topic :: "rosname \<Rightarrow> string \<Rightarrow> topic" where
  "Topic rn ty = \<lparr>r_rosname = rn, r_type = ty, r_conditions = [],
     publishers = [], subscribers = []\<rparr>"

definition Service :: "rosname \<Rightarrow> string \<Rightarrow> service" where
  "Service rn ty = \<lparr>r_rosname = rn, r_type = ty, r_conditions = [],
     server = None, clients = []\<rparr>"

record hint_set =
  h_advertise :: "(string \<times> string) list"
  h_subscribe :: "(string \<times> string) list"
  h_service :: "(string \<times> string) list"
  h_client :: "(string \<times> string) list"

subsection \<open>Dictionaries and name-keyed collections\<close>

fun dict_set :: "'k \<Rightarrow> 'v \<Rightarrow> ('k \<times> 'v) list \<Rightarrow> ('k \<times> 'v) list" where
  "dict_set k v [] = [(k, v)]"
| "dict_set k v ((k', v') # d) =
     (if k' = k then (k, v) # d else (k', v') # dict_set k v d)"

text \<open>
  Modelled from the spec: the collection class of the metamodel module is missing from
  the sources. The spec says that each collection of the configuration is keyed by
  fully-resolved name and that a name maps to at most one entity of each kind. A
  collection is therefore a dictionary from the full name to the entity:
  \<^verbatim>\<open>get\<close> looks the name up, \<^verbatim>\<open>add\<close> files the entity under its full name.
\<close>

definition collection_get :: "(string \<times> 'a) list \<Rightarrow> string \<Rightarrow> 'a option" where
  "collection_get c n = map_of c n"

definition collection_add :: "string \<Rightarrow> 'a \<Rightarrow> (string \<times> 'a) list \<Rightarrow> (string \<times> 'a) list" where
  "collection_add n x c = dict_set n x c"

section \<open>The store and the external collaborators\<close>

text \<open>
  A \<^verbatim>\<open>LaunchScope\<close>. Its attributes are bound once, in \<^verbatim>\<open>__init__\<close>; what
  changes afterwards are the objects they refer to. \<open>s_remaps\<close> and \<open>s_arguments\<close>
  are addresses of dictionaries, \<open>s_parameters\<close> and \<open>s_params\<close> (the attribute
  \<^verbatim>\<open>_params\<close>) addresses of parameter lists, \<open>s_node\<close> the address of a node
  instance. The attributes \<^verbatim>\<open>parent\<close> and \<^verbatim>\<open>children\<close> are written and never read,
  and are left out.
\<close>

record scope =
  s_launch_file :: launch_file
  s_namespace :: string
  s_node :: "nat option"
  s_remaps :: nat
  s_parameters :: nat
  s_arguments :: nat
  s_conditions :: "condition list"
  s_params :: nat

text \<open>A \<^verbatim>\<open>SubstitutionParser\<close>: its argument dictionary and its directory.\<close>

record subst =
  sub_arguments :: nat
  sub_dirname :: string

record state =
  remap_tables :: "(string \<times> string) list list"
  arg_tables :: "(string option \<times> string option) list list"
  param_lists :: "parameter list list"
  instances :: "node_instance list"
  links :: "link list"
  cfg_nodes :: "(string \<times> nat) list"
  cfg_topics :: "(string \<times> topic) list"
  cfg_services :: "(string \<times> service) list"
  cfg_parameters :: "(string \<times> parameter) list"
  cfg_roslaunch :: "launch_file list"
  errors :: "string list"

text \<open>
  What the builder calls and the sources do not define: the constructors and static
  methods of the metamodel, the expression evaluator of the launch parser, the source
  finder, the YAML and number parsers, the file system, and the hints the builder was
  constructed with. The evaluator is read in its two modes: \<open>ev_condition\<close> is
  \<^verbatim>\<open>sub.resolve(e)\<close>, \<open>ev_strict\<close> is \<^verbatim>\<open>sub.resolve(e, strict = True)\<close>, which
  yields a string or \<^verbatim>\<open>None\<close>; both see the argument dictionary and the directory
  of the parser. The evaluator also records the packages and the environment variables
  it touches; these dependency sets are not part of the model.
\<close>

record ctx =
  RosName :: "string option \<Rightarrow> string option \<Rightarrow> string option
    \<Rightarrow> (string \<times> string) list option \<Rightarrow> exn + rosname"
  RosName_resolve :: "string option \<Rightarrow> string \<Rightarrow> string option \<Rightarrow> exn + string"
  Parameter_type_of :: "pyval \<Rightarrow> string option"
  new_Node :: "string \<Rightarrow> string \<Rightarrow> rosname \<Rightarrow> node_template"
  ev_condition :: "(string option \<times> string option) list \<Rightarrow> string \<Rightarrow> string
    \<Rightarrow> exn + pyval"
  ev_strict :: "(string option \<times> string option) list \<Rightarrow> string \<Rightarrow> string option
    \<Rightarrow> exn + string option"
  sources_get_file :: "string option \<Rightarrow> launch_file option"
  sources_nodes :: "string \<Rightarrow> node_template option"
  sources_packages :: "string \<Rightarrow> string option"
  yaml_load :: "string option \<Rightarrow> exn + pyval"
  py_int :: "string \<Rightarrow> string + int"
  py_float :: "string \<Rightarrow> string + pyval"
  read_file :: "string \<Rightarrow> string option"
  builder_hints :: "string \<Rightarrow> hint_set option"

subsection \<open>Computations that change the store and may raise\<close>

datatype 'a outcome = Return 'a | Raise exn

type_synonym 'a action = "state \<Rightarrow> 'a outcome \<times> state"

definition returns :: "'a \<Rightarrow> 'a action" where
  "returns x st = (Return x, st)"

definition raises :: "exn \<Rightarrow> 'a action" where
  "raises e st = (Raise e, st)"

definition andthen :: "'a action \<Rightarrow> ('a \<Rightarrow> 'b action) \<Rightarrow> 'b action" where
  "andthen m f st = (case m st of (Return x, st') \<Rightarrow> f x st' | (Raise e, st') \<Rightarrow> (Raise e, st'))"

definition lift :: "exn + 'a \<Rightarrow> 'a action" where
  "lift r = (case r of Inl e \<Rightarrow> raises e | Inr x \<Rightarrow> returns x)"

definition modify :: "(state \<Rightarrow> state) \<Rightarrow> unit action" where
  "modify f st = (Return (), f st)"

definition reading :: "(state \<Rightarrow> 'a action) \<Rightarrow> 'a action" where
  "reading f st = f st st"

text \<open>
  Evaluating a name that is bound nowhere (no parameter, no local, no module global,
  no builtin) raises \<^verbatim>\<open>NameError\<close>; reading an attribute the object does not have
  raises \<^verbatim>\<open>AttributeError\<close>. The continuation that would have used the value never
  runs.
\<close>

definition unbound_name :: "string \<Rightarrow> 'a action" where
  "unbound_name n = raises (NameError n)"

definition missing_attribute :: "string \<Rightarrow> 'a action" where
  "missing_attribute n = raises (AttributeError n)"

definition truthy :: "string option \<Rightarrow> bool" where
  "truthy x = (case x of None \<Rightarrow> False | Some s \<Rightarrow> s \<noteq> [])"

text \<open>\<^verbatim>\<open>x or y\<close> for an optional string \<open>x\<close>.\<close>

definition or_else :: "string option \<Rightarrow> string \<Rightarrow> string" where
  "or_else x y = (case x of None \<Rightarrow> y | Some s \<Rightarrow> if s \<noteq> [] then s else y)"

section \<open>LaunchScope\<close>

definition startswith :: "string \<Rightarrow> string \<Rightarrow> bool" where
  "startswith s p = (take (length p) s = p)"

definition private_ns :: "state \<Rightarrow> scope \<Rightarrow> string" where
  "private_ns st self =
     (case s_node self of
        Some i \<Rightarrow> full (i_rosname (instances st ! i))
      | None \<Rightarrow> s_namespace self)"

definition ns_join :: "string \<Rightarrow> string \<Rightarrow> string" where
  "ns_join name ns =
    (if startswith name ''~'' \<or> startswith name ''/'' then name
     else if ns = ''~'' then ''~'' @ name
     else if ns = [] then name
     else if last ns = CHR ''/'' then ns @ name
     else ns @ ''/'' @ name)"

definition namespace :: "ctx \<Rightarrow> scope \<Rightarrow> string option \<Rightarrow> bool \<Rightarrow> string action" where
  "namespace cx self ns private st =
     (let pns = private_ns st self in
      if \<not> truthy ns then returns (if \<not> private then s_namespace self else pns) st
      else if private then lift (RosName_resolve cx ns pns (Some pns)) st
      else lift (RosName_resolve cx ns (s_namespace self) None) st)"

definition resolve_ns :: "ctx \<Rightarrow> scope \<Rightarrow> string option \<Rightarrow> string action" where
  "resolve_ns cx self ns st =
     (if \<not> truthy ns then returns (s_namespace self) st
      else if ns = Some ''~'' then returns (private_ns st self) st
      else lift (RosName_resolve cx ns (s_namespace self) (Some (private_ns st self))) st)"

text \<open>
  \<^verbatim>\<open>LaunchScope.__init__\<close>: \<^verbatim>\<open>self._params = list(parent._params)\<close> allocates a new
  list holding what the parent's pending list holds at this moment.
\<close>

definition copy_params :: "scope \<Rightarrow> nat action" where
  "copy_params parent st =
     (Return (length (param_lists st)),
      st\<lparr>param_lists := param_lists st @ [param_lists st ! s_params parent]\<rparr>)"

definition copy_remaps :: "nat \<Rightarrow> nat action" where
  "copy_remaps r st =
     (Return (length (remap_tables st)),
      st\<lparr>remap_tables := remap_tables st @ [remap_tables st ! r]\<rparr>)"

definition child ::
  "ctx \<Rightarrow> scope \<Rightarrow> string option \<Rightarrow> condition \<Rightarrow> launch_file option \<Rightarrow> nat option
    \<Rightarrow> scope action" where
  "child cx self ns condition launch args =
     andthen (namespace cx self ns False) (\<lambda>ns'.
     andthen (copy_remaps (s_remaps self)) (\<lambda>remaps.
     andthen (copy_params self) (\<lambda>params.
     returns \<lparr>s_launch_file = (case launch of Some l \<Rightarrow> l | None \<Rightarrow> s_launch_file self),
        s_namespace = ns', s_node = None, s_remaps = remaps,
        s_parameters = s_parameters self,
        s_arguments = (case args of Some a \<Rightarrow> a | None \<Rightarrow> s_arguments self),
        s_conditions = s_conditions self @ (if condition = CTrue then [] else [condition]),
        s_params = params\<rparr>)))"

definition remap :: "ctx \<Rightarrow> scope \<Rightarrow> string option \<Rightarrow> string option \<Rightarrow> unit action" where
  "remap cx self source target st =
     (let pns = private_ns st self in
      andthen (lift (RosName_resolve cx source (s_namespace self) (Some pns))) (\<lambda>source'.
      andthen (lift (RosName_resolve cx target (s_namespace self) (Some pns))) (\<lambda>target'.
      modify (\<lambda>st. st\<lparr>remap_tables := (remap_tables st)
        [s_remaps self := dict_set source' target' (remap_tables st ! s_remaps self)]\<rparr>))) st)"

definition append_param :: "nat \<Rightarrow> parameter \<Rightarrow> unit action" where
  "append_param a p =
     modify (\<lambda>st. st\<lparr>param_lists := (param_lists st)[a := param_lists st ! a @ [p]]\<rparr>)"

text \<open>
  The loop at the end of \<^verbatim>\<open>make_node\<close>: every parameter of the pending list of the
  enclosing scope is re-homed under the private namespace of the new node and appended
  to the parameter list. The pending list itself is only read.
\<close>

fun rehome :: "ctx \<Rightarrow> nat \<Rightarrow> string \<Rightarrow> condition list \<Rightarrow> parameter list \<Rightarrow> unit action" where
  "rehome cx plist pns iconds [] = returns ()"
| "rehome cx plist pns iconds (param # rest) =
     andthen (lift (RosName cx (given (p_rosname param)) (Some pns) (Some pns) None)) (\<lambda>rn.
     andthen (append_param plist
        \<lparr>p_rosname = rn, p_type = p_type param, p_value = p_value param,
         p_node_scope = p_node_scope param,
         p_conditions = p_conditions param @ iconds\<rparr>) (\<lambda>_.
     rehome cx plist pns iconds rest))"

text \<open>
  The new \<^verbatim>\<open>NodeInstance\<close> is allocated and added to the node collection of the
  configuration under its full name.
\<close>

definition new_instance :: "node_instance \<Rightarrow> nat action" where
  "new_instance instance st =
     (Return (length (instances st)),
      st\<lparr>instances := instances st @ [instance],
         cfg_nodes := collection_add (full (i_rosname instance)) (length (instances st))
           (cfg_nodes st)\<rparr>)"

definition make_node ::
  "ctx \<Rightarrow> scope \<Rightarrow> node_template \<Rightarrow> string option \<Rightarrow> string option \<Rightarrow> string option
    \<Rightarrow> condition \<Rightarrow> scope action" where
  "make_node cx self node name ns args condition =
     andthen (namespace cx self ns False) (\<lambda>ns'.
     let name' = Some (or_else name (own (n_rosname node))) in
     reading (\<lambda>st.
     andthen (lift (RosName cx name' (Some ns') (Some (private_ns st self)) None)) (\<lambda>rn.
     andthen (copy_remaps (s_remaps self)) (\<lambda>remaps.
     let conds = s_conditions self @ (if condition = CTrue then [] else [condition]);
         instance = \<lparr>i_rosname = rn, i_node = node, i_launch = lf_id (s_launch_file self),
           i_argv = args, i_remaps = remaps, i_conditions = conds,
           i_publishers = [], i_subscribers = [], i_servers = [], i_clients = []\<rparr> in
     andthen (new_instance instance) (\<lambda>a.
     andthen (copy_params self) (\<lambda>params.
     let new_scope = \<lparr>s_launch_file = s_launch_file self, s_namespace = ns',
           s_node = Some a, s_remaps = remaps, s_parameters = s_parameters self,
           s_arguments = s_arguments self, s_conditions = conds, s_params = params\<rparr> in
     reading (\<lambda>st.
     andthen (rehome cx (s_parameters self) (private_ns st new_scope) conds
        (param_lists st ! s_params self)) (\<lambda>_.
     returns new_scope))))))))"

subsection \<open>Parameters\<close>

definition is_space :: "char \<Rightarrow> bool" where
  "is_space c = (c \<in> set [CHR '' '', CHR 0x09, CHR 0x0A, CHR 0x0B, CHR 0x0C, CHR 0x0D])"

definition strip :: "string \<Rightarrow> string" where
  "strip s = rev (dropWhile is_space (rev (dropWhile is_space s)))"

definition lower_char :: "char \<Rightarrow> char" where
  "lower_char c =
     (let n = (of_char c :: nat) in if 65 \<le> n \<and> n \<le> 90 then char_of (n + 32) else c)"

definition lower :: "string \<Rightarrow> string" where
  "lower s = map lower_char s"

text \<open>
  \<^verbatim>\<open>_convert_value\<close>. \<^verbatim>\<open>int\<close> and \<^verbatim>\<open>float\<close> either yield a number or raise
  \<^verbatim>\<open>ValueError\<close> with a message; of the errors of the YAML parser only
  \<^verbatim>\<open>ParserError\<close> is turned into a \<^verbatim>\<open>ValueError\<close>.
\<close>

definition quote :: "string \<Rightarrow> string" where
  "quote s = [CHR 0x27] @ s @ [CHR 0x27]"

definition convert_bool :: "string \<Rightarrow> string \<Rightarrow> exn + pyval" where
  "convert_bool v ptype =
     (let v' = strip (lower v) in
      if v' = ''true'' \<or> v' = ''1'' then Inr (VBool True)
      else if v' = ''false'' \<or> v' = ''0'' then Inr (VBool False)
      else Inl (ValueError (v' @ '' is not a '' @ quote ptype @ '' type'')))"

definition convert_value :: "ctx \<Rightarrow> string \<Rightarrow> string option \<Rightarrow> exn + pyval" where
  "convert_value cx v ptype =
     (case ptype of
        None \<Rightarrow>
          (case (if CHR ''.'' \<in> set v then py_float cx v
                 else map_sum id VInt (py_int cx v)) of
             Inr n \<Rightarrow> Inr n
           | Inl _ \<Rightarrow>
               if lower v = ''true'' \<or> lower v = ''false'' then convert_bool v ''bool''
               else Inr (VStr v))
      | Some t \<Rightarrow>
          if t = ''str'' \<or> t = ''string'' then Inr (VStr v)
          else if t = ''int'' then map_sum ValueError VInt (py_int cx v)
          else if t = ''double'' then map_sum ValueError id (py_float cx v)
          else if t = ''bool'' \<or> t = ''boolean'' then convert_bool v t
          else if t = ''yaml'' then
            (case yaml_load cx (Some v) of
               Inl (ParserError m) \<Rightarrow> Inl (ValueError m)
             | r \<Rightarrow> r)
          else Inl (ValueError (''Unknown type '' @ quote t)))"

text \<open>
  \<^verbatim>\<open>_unfold\<close>: the loop over a stack of \<^verbatim>\<open>(ns, key, value)\<close> triples. The stack is
  a list whose head is the top; the items of a dictionary are pushed in iteration
  order, so the last one is popped first.
\<close>

fun vsize :: "pyval \<Rightarrow> nat" where
  "vsize (VDict items) = Suc (sum_list (map (\<lambda>kv. Suc (vsize (snd kv))) items))"
| "vsize (VList xs) = Suc (sum_list (map vsize xs))"
| "vsize v = 1"

definition stack_weight :: "(string \<times> string \<times> pyval) list \<Rightarrow> nat" where
  "stack_weight stack = sum_list (map (\<lambda>e. Suc (vsize (snd (snd e)))) stack)"

function unfold_loop ::
  "(string \<times> string \<times> pyval) list \<Rightarrow> (string \<times> pyval \<times> bool) list
    \<Rightarrow> (string \<times> pyval \<times> bool) list" where
  "unfold_loop [] result = result"
| "unfold_loop ((ns, key, value) # stack) result =
    (let name = ns_join key ns in
     case value of
       VDict items \<Rightarrow>
         unfold_loop (rev (map (\<lambda>(key, other). (name, key, other)) items) @ stack) result
     | _ \<Rightarrow> unfold_loop stack (result @ [(name, value, name = key)]))"
  by pat_completeness auto
termination
  apply (relation "measure (\<lambda>(stack, result). stack_weight stack)")
  apply (auto simp: stack_weight_def rev_map[symmetric] comp_def case_prod_beta)
  done

definition unfold :: "string \<Rightarrow> pyval \<Rightarrow> (string \<times> pyval \<times> bool) list" where
  "unfold name value = unfold_loop [([], name, value)] []"

text \<open>
  \<^verbatim>\<open>_yaml_param\<close>: one parameter per item of \<^verbatim>\<open>_unfold\<close>. The flag the item carries
  is overwritten before it is read.
\<close>

fun yaml_items ::
  "ctx \<Rightarrow> scope \<Rightarrow> bool \<Rightarrow> string \<Rightarrow> bool \<Rightarrow> condition list
    \<Rightarrow> (string \<times> pyval \<times> bool) list \<Rightarrow> unit action" where
  "yaml_items cx self private pns node_scope conditions [] = returns ()"
| "yaml_items cx self private pns node_scope conditions ((name, value, independent) # rest) =
     (let independent = (startswith name ''/'' \<or> startswith name ''~'') in
      andthen (lift (if independent \<and> startswith name ''~''
                 then RosName cx (Some name) (Some ''/roslaunch'') (Some ''/roslaunch'') None
                 else RosName cx (Some name) (Some pns) (Some pns) None)) (\<lambda>rn.
      let param = \<lparr>p_rosname = rn, p_type = None, p_value = value,
            p_node_scope = node_scope, p_conditions = conditions\<rparr> in
      andthen (if independent \<or> \<not> private then append_param (s_parameters self) param
               else append_param (s_params self) param) (\<lambda>_.
      yaml_items cx self private pns node_scope conditions rest)))"

definition yaml_param ::
  "ctx \<Rightarrow> scope \<Rightarrow> string option \<Rightarrow> pyval \<Rightarrow> condition list \<Rightarrow> bool \<Rightarrow> unit action" where
  "yaml_param cx self name value conditions private =
     (case name of
        None \<Rightarrow> missing_attribute ''startswith''
      | Some name \<Rightarrow>
          reading (\<lambda>st.
            yaml_items cx self (private \<and> startswith name ''~'') (private_ns st self)
              (s_node self \<noteq> None) conditions (unfold name value)))"

definition make_params ::
  "ctx \<Rightarrow> scope \<Rightarrow> string option \<Rightarrow> string option \<Rightarrow> string option \<Rightarrow> condition
    \<Rightarrow> unit action" where
  "make_params cx self name ptype value condition =
     andthen (case value of
                None \<Rightarrow> returns (VNone, ptype)
              | Some v \<Rightarrow> andthen (lift (convert_value cx v ptype)) (\<lambda>v'.
                           returns (v', Parameter_type_of cx v'))) (\<lambda>(value, ptype).
     let conditions = s_conditions self @ (if condition = CTrue then [] else [condition]) in
     if ptype = Some ''yaml'' \<or> (case value of VDict _ \<Rightarrow> True | _ \<Rightarrow> False)
     then yaml_param cx self name value conditions True
     else
       reading (\<lambda>st.
       andthen (lift (RosName cx name (Some (private_ns st self)) (Some (private_ns st self))
                  None)) (\<lambda>rn.
       let param = \<lparr>p_rosname = rn, p_type = ptype, p_value = value,
             p_node_scope = (s_node self \<noteq> None), p_conditions = conditions\<rparr> in
       if s_node self = None \<and> is_private rn then append_param (s_params self) param
       else append_param (s_parameters self) param)))"

text \<open>
  \<^verbatim>\<open>make_rosparam\<close>. The import of \<^verbatim>\<open>rosparam\<close> on the first call is taken to
  succeed; the YAML text is parsed before the names are joined.
\<close>

definition make_rosparam ::
  "ctx \<Rightarrow> scope \<Rightarrow> string option \<Rightarrow> string option \<Rightarrow> string option \<Rightarrow> condition
    \<Rightarrow> unit action" where
  "make_rosparam cx self name ns value condition =
     (case yaml_load cx value of
        Inl (ParserError m) \<Rightarrow> raises (ConfigurationError m)
      | Inl (YAMLError m) \<Rightarrow> raises (ConfigurationError m)
      | Inl e \<Rightarrow> raises e
      | Inr value \<Rightarrow>
          reading (\<lambda>st.
          let pns = private_ns st self;
              ns = ns_join (or_else ns pns) pns in
          andthen (case name of
                     Some n \<Rightarrow> if n \<noteq> [] then returns (ns_join n ns) else
                       (case value of
                           VDict _ \<Rightarrow> returns ns
                         | _ \<Rightarrow> raises (ConfigurationError
                             (quote ''param'' @ '' attribute must be set'' @
                              '' for non-dictionary values'')))
                   | None \<Rightarrow>
                       (case value of
                           VDict _ \<Rightarrow> returns ns
                         | _ \<Rightarrow> raises (ConfigurationError
                             (quote ''param'' @ '' attribute must be set'' @
                              '' for non-dictionary values'')))) (\<lambda>name.
          let conditions = s_conditions self @ (if condition = CTrue then [] else [condition])
          in yaml_param cx self (Some name) value conditions False)))"

text \<open>
  \<^verbatim>\<open>remove_param\<close>. A parameter found in the collection is an object, and true.
  A \<^verbatim>\<open>LaunchScope\<close> has no attribute \<^verbatim>\<open>resources\<close>: the last branch raises
  \<^verbatim>\<open>AttributeError\<close> before anything is appended.
\<close>

definition remove_param ::
  "ctx \<Rightarrow> scope \<Rightarrow> string option \<Rightarrow> string option \<Rightarrow> condition \<Rightarrow> unit action" where
  "remove_param cx self name ns condition =
     reading (\<lambda>st.
     let pns = private_ns st self;
         ns = ns_join (or_else ns pns) pns in
     andthen (lift (RosName_resolve cx name ns (Some ''/rosparam''))) (\<lambda>name.
     case collection_get (cfg_parameters st) name of
       None \<Rightarrow> raises (ConfigurationError (''missing parameter: '' @ name))
     | Some param \<Rightarrow>
         if condition \<noteq> CTrue \<or> s_conditions self \<noteq> [] then returns ()
         else missing_attribute ''resources''))"

subsection \<open>Topics, services and links\<close>

text \<open>
  \<^verbatim>\<open>_lookup_resource\<close> calls \<^verbatim>\<open>re.match(pattern, rosname)\<close>. What the name
  \<^verbatim>\<open>re\<close> stands for is made a parameter of the loops, a function from the pattern
  and the name to the truth value of the match, or to the exception its evaluation
  raises. The module never imports \<^verbatim>\<open>re\<close> and defines no such name: as the code
  stands, the expression raises \<^verbatim>\<open>NameError\<close> whenever it is evaluated, and this is
  the matcher \<^verbatim>\<open>_lookup_resource\<close> runs with.
\<close>

type_synonym matcher = "string \<Rightarrow> string \<Rightarrow> exn + bool"

definition re_match :: matcher where
  "re_match pattern s = Inl (NameError ''re'')"

definition replace_wildcard :: "string \<Rightarrow> string" where
  "replace_wildcard name =
     concat (map (\<lambda>c. if c = CHR ''?'' then ''(?:.+?)'' else [c]) name)"

text \<open>
  One loop of \<^verbatim>\<open>_lookup_resource\<close> over pairs of a name and a resource: \<open>Inl r\<close>
  is \<^verbatim>\<open>return resource\<close> from inside the loop, \<open>Inr candidate\<close> the candidate
  when the loop has run to its end.
\<close>

fun scan ::
  "matcher \<Rightarrow> string \<Rightarrow> string \<Rightarrow> (string \<times> ('a resource_scheme)) list
    \<Rightarrow> 'a resource_scheme option
    \<Rightarrow> exn + ('a resource_scheme + 'a resource_scheme option)" where
  "scan match pattern ty [] candidate = Inr (Inr candidate)"
| "scan match pattern ty ((rosname, resource) # rest) candidate =
     (case match pattern rosname of
        Inl e \<Rightarrow> Inl e
      | Inr m \<Rightarrow>
          if m then
            (if r_type resource = ty then Inr (Inl resource)
             else scan match pattern ty rest
                    (if candidate = None then Some resource else candidate))
          else scan match pattern ty rest candidate)"

definition lookup_resource_with ::
  "matcher \<Rightarrow> string \<Rightarrow> string \<Rightarrow> (string \<times> ('a resource_scheme)) list
    \<Rightarrow> (string \<times> ('a resource_scheme)) list \<Rightarrow> exn + 'a resource_scheme option" where
  "lookup_resource_with match name ty collection hints =
     (if CHR ''?'' \<notin> set name then Inr (collection_get collection name)
      else
        let pattern = replace_wildcard name @ ''$'' in
        case scan match pattern ty hints None of
          Inl e \<Rightarrow> Inl e
        | Inr (Inl resource) \<Rightarrow> Inr (Some resource)
        | Inr (Inr candidate) \<Rightarrow>
            (case scan match pattern ty collection candidate of
               Inl e \<Rightarrow> Inl e
             | Inr (Inl resource) \<Rightarrow> Inr (Some resource)
             | Inr (Inr candidate) \<Rightarrow> Inr candidate))"

definition lookup_resource ::
  "string \<Rightarrow> string \<Rightarrow> (string \<times> ('a resource_scheme)) list
    \<Rightarrow> (string \<times> ('a resource_scheme)) list \<Rightarrow> exn + 'a resource_scheme option" where
  "lookup_resource = lookup_resource_with re_match"

definition new_link :: "link \<Rightarrow> nat action" where
  "new_link l st = (Return (length (links st)), st\<lparr>links := links st @ [l]\<rparr>)"

text \<open>
  \<^verbatim>\<open>_make_topic_link\<close>. The topic a link is attached to is the entry of the
  collection under the full name of that topic: whatever \<^verbatim>\<open>_lookup_resource\<close>
  returns without raising comes from \<^verbatim>\<open>collection.get\<close> (lemma
  \<open>lookup_resource_from_collection\<close>), and a new topic is added under its name.
\<close>

definition make_topic_link ::
  "ctx \<Rightarrow> scope \<Rightarrow> nat \<Rightarrow> string \<Rightarrow> string option \<Rightarrow> string \<Rightarrow> string \<Rightarrow> int option
    \<Rightarrow> condition list \<Rightarrow> (string \<times> topic) list \<Rightarrow> nat action" where
  "make_topic_link cx self node name ns pns ty queue conditions hints =
     andthen (resolve_ns cx self ns) (\<lambda>rns.
     reading (\<lambda>st.
     andthen (lift (RosName cx (Some name) (Some rns) (Some pns)
                (Some (remap_tables st ! i_remaps (instances st ! node))))) (\<lambda>rn.
     andthen (lift (lookup_resource (full rn) ty (cfg_topics st) hints)) (\<lambda>found.
     let topic = (case found of None \<Rightarrow> Topic rn ty | Some t \<Rightarrow> t);
         key = full (r_rosname topic) in
     andthen (modify (\<lambda>st.
        if collection_get (cfg_topics st) key = None
        then st\<lparr>cfg_topics := collection_add key topic (cfg_topics st)\<rparr> else st)) (\<lambda>_.
     andthen (lift (RosName cx (Some name) (Some (or_else ns (s_namespace self))) (Some pns)
                None)) (\<lambda>lrn.
     new_link \<lparr>l_node = node, l_target = key, l_type = ty, l_rosname = lrn,
        l_queue = queue, l_conditions = conditions\<rparr>))))))"

definition make_service_link ::
  "ctx \<Rightarrow> scope \<Rightarrow> nat \<Rightarrow> string \<Rightarrow> string option \<Rightarrow> string \<Rightarrow> string
    \<Rightarrow> condition list \<Rightarrow> (string \<times> service) list \<Rightarrow> nat action" where
  "make_service_link cx self node name ns pns ty conditions hints =
     andthen (resolve_ns cx self ns) (\<lambda>rns.
     reading (\<lambda>st.
     andthen (lift (RosName cx (Some name) (Some rns) (Some pns)
                (Some (remap_tables st ! i_remaps (instances st ! node))))) (\<lambda>rn.
     andthen (lift (lookup_resource (full rn) ty (cfg_services st) hints)) (\<lambda>found.
     let service = (case found of None \<Rightarrow> Service rn ty | Some s \<Rightarrow> s);
         key = full (r_rosname service) in
     andthen (modify (\<lambda>st.
        if collection_get (cfg_services st) key = None
        then st\<lparr>cfg_services := collection_add key service (cfg_services st)\<rparr> else st)) (\<lambda>_.
     andthen (lift (RosName cx (Some name) (Some (or_else ns (s_namespace self))) (Some pns)
                None)) (\<lambda>lrn.
     new_link \<lparr>l_node = node, l_target = key, l_type = ty, l_rosname = lrn,
        l_queue = None, l_conditions = conditions\<rparr>))))))"

text \<open>
  \<^verbatim>\<open>_update_topic_conditions\<close>. \<open>node_conditions st l\<close> is
  \<^verbatim>\<open>link.node.conditions\<close>. A loop returns the contents of the list
  \<^verbatim>\<open>topic.conditions\<close> refers to when the loop ends, and the link it broke at, if it
  did. After \<^verbatim>\<open>topic.conditions = link.conditions\<close> both names refer to one list:
  when the first loop breaks at a publisher, what the second loop appends is appended
  to the condition list of that publisher's link.
\<close>

definition node_conditions :: "state \<Rightarrow> nat \<Rightarrow> condition list" where
  "node_conditions st l = i_conditions (instances st ! l_node (links st ! l))"

fun conditions_loop :: "state \<Rightarrow> nat list \<Rightarrow> condition list \<Rightarrow> condition list \<times> nat option" where
  "conditions_loop st [] acc = (acc, None)"
| "conditions_loop st (l # ls) acc =
     (if node_conditions st l = [] then (acc, Some l)
      else conditions_loop st ls (acc @ node_conditions st l @ l_conditions (links st ! l)))"

definition set_link_conditions :: "nat \<Rightarrow> condition list \<Rightarrow> state \<Rightarrow> state" where
  "set_link_conditions l cs st =
     st\<lparr>links := (links st)[l := (links st ! l)\<lparr>l_conditions := cs\<rparr>]\<rparr>"

fun update_entry :: "string \<Rightarrow> ('a \<Rightarrow> 'a) \<Rightarrow> (string \<times> 'a) list \<Rightarrow> (string \<times> 'a) list" where
  "update_entry k f [] = []"
| "update_entry k f ((k', x) # c) =
     (if k' = k then (k', f x) # c else (k', x) # update_entry k f c)"

definition update_topic_conditions :: "string \<Rightarrow> unit action" where
  "update_topic_conditions key st =
     (case collection_get (cfg_topics st) key of
        None \<Rightarrow> (Return (), st)
      | Some topic \<Rightarrow>
          let (acc1, brk1) = conditions_loop st (publishers topic) [];
              first = (case brk1 of Some p \<Rightarrow> l_conditions (links st ! p) | None \<Rightarrow> acc1);
              (acc2, brk2) = conditions_loop st (subscribers topic) first;
              st' = (case brk1 of Some p \<Rightarrow> set_link_conditions p acc2 st | None \<Rightarrow> st);
              final = (case brk2 of Some s \<Rightarrow> l_conditions (links st' ! s) | None \<Rightarrow> acc2)
          in (Return (),
              st'\<lparr>cfg_topics := update_entry key (\<lambda>t. t\<lparr>r_conditions := final\<rparr>)
                (cfg_topics st')\<rparr>))"

definition update_service_conditions :: "string \<Rightarrow> unit action" where
  "update_service_conditions key st =
     (case collection_get (cfg_services st) key of
        None \<Rightarrow> (Return (), st)
      | Some service \<Rightarrow>
          let (first, alias) =
                (case server service of
                   None \<Rightarrow> ([], None)
                 | Some l \<Rightarrow>
                     if node_conditions st l = [] then (l_conditions (links st ! l), Some l)
                     else (node_conditions st l @ l_conditions (links st ! l), None));
              (acc2, brk2) = conditions_loop st (clients service) first;
              st' = (case alias of Some p \<Rightarrow> set_link_conditions p acc2 st | None \<Rightarrow> st);
              final = (case brk2 of Some s \<Rightarrow> l_conditions (links st' ! s) | None \<Rightarrow> acc2)
          in (Return (),
              st'\<lparr>cfg_services := update_entry key (\<lambda>s. s\<lparr>r_conditions := final\<rparr>)
                (cfg_services st')\<rparr>))"

fun for_each :: "('a \<Rightarrow> unit action) \<Rightarrow> 'a list \<Rightarrow> unit action" where
  "for_each body [] = returns ()"
| "for_each body (x # xs) = andthen (body x) (\<lambda>_. for_each body xs)"

definition update_instance :: "nat \<Rightarrow> (node_instance \<Rightarrow> node_instance) \<Rightarrow> state \<Rightarrow> state" where
  "update_instance a f st = st\<lparr>instances := (instances st)[a := f (instances st ! a)]\<rparr>"

text \<open>The bodies of the four loops of \<^verbatim>\<open>make_topics\<close> and \<^verbatim>\<open>make_services\<close>.\<close>

definition advertise_call ::
  "ctx \<Rightarrow> scope \<Rightarrow> nat \<Rightarrow> string \<Rightarrow> (string \<times> topic) list \<Rightarrow> call \<Rightarrow> unit action" where
  "advertise_call cx self node pns hints call =
     andthen (make_topic_link cx self node (c_name call) (c_namespace call) pns (c_type call)
        (c_queue_size call) (c_conditions call) hints) (\<lambda>l.
     reading (\<lambda>st. let key = l_target (links st ! l) in
     andthen (modify (update_instance node (\<lambda>i. i\<lparr>i_publishers := i_publishers i @ [l]\<rparr>))) (\<lambda>_.
     andthen (modify (\<lambda>st. st\<lparr>cfg_topics :=
        update_entry key (\<lambda>t. t\<lparr>publishers := publishers t @ [l]\<rparr>) (cfg_topics st)\<rparr>)) (\<lambda>_.
     update_topic_conditions key))))"

definition subscribe_call ::
  "ctx \<Rightarrow> scope \<Rightarrow> nat \<Rightarrow> string \<Rightarrow> (string \<times> topic) list \<Rightarrow> call \<Rightarrow> unit action" where
  "subscribe_call cx self node pns hints call =
     andthen (make_topic_link cx self node (c_name call) (c_namespace call) pns (c_type call)
        (c_queue_size call) (c_conditions call) hints) (\<lambda>l.
     reading (\<lambda>st. let key = l_target (links st ! l) in
     andthen (modify (update_instance node (\<lambda>i. i\<lparr>i_subscribers := i_subscribers i @ [l]\<rparr>))) (\<lambda>_.
     andthen (modify (\<lambda>st. st\<lparr>cfg_topics :=
        update_entry key (\<lambda>t. t\<lparr>subscribers := subscribers t @ [l]\<rparr>) (cfg_topics st)\<rparr>)) (\<lambda>_.
     update_topic_conditions key))))"

definition make_topics :: "ctx \<Rightarrow> scope \<Rightarrow> (string \<times> topic) list \<Rightarrow> unit action" where
  "make_topics cx self hints =
     (case s_node self of
        None \<Rightarrow> raises AssertionError
      | Some node \<Rightarrow>
          reading (\<lambda>st.
          let pns = private_ns st self; template = i_node (instances st ! node) in
          andthen (for_each (advertise_call cx self node pns hints) (n_advertise template)) (\<lambda>_.
          for_each (subscribe_call cx self node pns hints) (n_subscribe template))))"

definition service_call ::
  "ctx \<Rightarrow> scope \<Rightarrow> nat \<Rightarrow> string \<Rightarrow> (string \<times> service) list \<Rightarrow> call \<Rightarrow> unit action" where
  "service_call cx self node pns hints call =
     andthen (make_service_link cx self node (c_name call) (c_namespace call) pns (c_type call)
        (c_conditions call) hints) (\<lambda>l.
     reading (\<lambda>st. let key = l_target (links st ! l) in
     andthen (modify (update_instance node (\<lambda>i. i\<lparr>i_servers := i_servers i @ [l]\<rparr>))) (\<lambda>_.
     andthen (modify (\<lambda>st. st\<lparr>cfg_services :=
        update_entry key (\<lambda>s. s\<lparr>server := Some l\<rparr>) (cfg_services st)\<rparr>)) (\<lambda>_.
     update_service_conditions key))))"

definition client_call ::
  "ctx \<Rightarrow> scope \<Rightarrow> nat \<Rightarrow> string \<Rightarrow> (string \<times> service) list \<Rightarrow> call \<Rightarrow> unit action" where
  "client_call cx self node pns hints call =
     andthen (make_service_link cx self node (c_name call) (c_namespace call) pns (c_type call)
        (c_conditions call) hints) (\<lambda>l.
     reading (\<lambda>st. let key = l_target (links st ! l) in
     andthen (modify (update_instance node (\<lambda>i. i\<lparr>i_clients := i_clients i @ [l]\<rparr>))) (\<lambda>_.
     andthen (modify (\<lambda>st. st\<lparr>cfg_services :=
        update_entry key (\<lambda>s. s\<lparr>clients := clients s @ [l]\<rparr>) (cfg_services st)\<rparr>)) (\<lambda>_.
     update_service_conditions key))))"

definition make_services :: "ctx \<Rightarrow> scope \<Rightarrow> (string \<times> service) list \<Rightarrow> unit action" where
  "make_services cx self hints =
     (case s_node self of
        None \<Rightarrow> raises AssertionError
      | Some node \<Rightarrow>
          reading (\<lambda>st.
          let pns = private_ns st self; template = i_node (instances st ! node) in
          andthen (for_each (service_call cx self node pns hints) (n_service template)) (\<lambda>_.
          for_each (client_call cx self node pns hints) (n_client template))))"

section \<open>ConfigurationBuilder\<close>

definition log_error :: "string \<Rightarrow> unit action" where
  "log_error msg = modify (\<lambda>st. st\<lparr>errors := errors st @ [msg]\<rparr>)"

definition resolve_strict :: "ctx \<Rightarrow> subst \<Rightarrow> string option \<Rightarrow> string option action" where
  "resolve_strict cx sub e =
     reading (\<lambda>st. lift (ev_strict cx (arg_tables st ! sub_arguments sub) (sub_dirname sub) e))"

text \<open>
  \<^verbatim>\<open>_condition\<close>. In the branch of an unresolved value the location is read from
  \<^verbatim>\<open>config.roslaunch[-1]\<close>, and \<^verbatim>\<open>config\<close> is neither a parameter, nor a local, nor a
  name of the module (the configuration is \<^verbatim>\<open>self.configuration\<close>).
\<close>

definition tag_condition :: "ctx \<Rightarrow> bool \<times> string \<Rightarrow> subst \<Rightarrow> condition action" where
  "tag_condition cx condition sub =
     reading (\<lambda>st.
     andthen (lift (ev_condition cx (arg_tables st ! sub_arguments sub) (sub_dirname sub)
                (snd condition))) (\<lambda>value.
     if value = VNone then
       andthen (unbound_name ''config'') (\<lambda>config :: state.
       returns (SourceCondition (snd condition) (lf_location (last (cfg_roslaunch config)))))
     else if value = VBool (fst condition) then returns CTrue
     else returns CFalse))"

definition split_on :: "(char \<Rightarrow> bool) \<Rightarrow> string \<Rightarrow> string list" where
  "split_on sep s =
     foldr (\<lambda>c acc. if sep c then [] # acc
                     else (case acc of [] \<Rightarrow> [[c]] | w # ws \<Rightarrow> (c # w) # ws)) s [[]]"

definition get_node :: "ctx \<Rightarrow> string \<Rightarrow> string \<Rightarrow> string option \<Rightarrow> exn + node_template" where
  "get_node cx pkg exe args =
     (case (if exe = ''nodelet'' then
              (if \<not> truthy args then Inl (ConfigurationError ''nodelet without args'')
               else
                 (case filter (\<lambda>w. w \<noteq> []) (split_on is_space (or_else args [])) of
                    [] \<Rightarrow> Inl IndexError
                  | a0 # as \<Rightarrow>
                      if a0 = ''load'' \<or> a0 = ''standalone'' then
                        (if length (a0 # as) < 3
                         then Inl (ConfigurationError ''nodelet load: too few arguments'')
                         else (case split_on (\<lambda>c. c = CHR ''/'') (hd as) of
                                 [p, e] \<Rightarrow> Inr (p, e)
                               | [_] \<Rightarrow> Inl (ValueError ''need more than 1 value to unpack'')
                               | _ \<Rightarrow> Inl (ValueError ''too many values to unpack'')))
                      else Inr (pkg, exe)))
            else Inr (pkg, exe)) of
        Inl e \<Rightarrow> Inl e
      | Inr (pkg, exe) \<Rightarrow>
          (case sources_packages cx (''package:'' @ pkg) of
             None \<Rightarrow> Inl (ConfigurationError (''cannot find package: '' @ pkg))
           | Some package \<Rightarrow>
               (case sources_nodes cx (''node:'' @ pkg @ ''/'' @ exe) of
                  Some node \<Rightarrow> Inr node
                | None \<Rightarrow>
                    (case RosName cx (Some ''?'') None None None of
                       Inl e \<Rightarrow> Inl e
                     | Inr rn \<Rightarrow> Inr (new_Node cx exe package rn)))))"

definition rsplit1 :: "string \<Rightarrow> string list" where
  "rsplit1 s =
     (if CHR ''/'' \<in> set s
      then [rev (tl (dropWhile (\<lambda>c. c \<noteq> CHR ''/'') (rev s))),
            rev (takeWhile (\<lambda>c. c \<noteq> CHR ''/'') (rev s))]
      else [s])"

definition make_comm_hint ::
  "ctx \<Rightarrow> string \<Rightarrow> string \<Rightarrow> scope \<Rightarrow> rosname action" where
  "make_comm_hint cx name pns scope =
     (let parts = rsplit1 name; name = last parts;
          ns = (if length parts > 1 then hd parts else ''/'') in
      andthen (resolve_ns cx scope (Some ns)) (\<lambda>rns.
      case s_node scope of
        None \<Rightarrow> missing_attribute ''remaps''
      | Some node \<Rightarrow>
          reading (\<lambda>st. lift (RosName cx (Some name) (Some rns) (Some pns)
            (Some (remap_tables st ! i_remaps (instances st ! node)))))))"

fun comm_hints ::
  "ctx \<Rightarrow> string \<Rightarrow> scope \<Rightarrow> (rosname \<Rightarrow> string \<Rightarrow> 'a resource_scheme)
    \<Rightarrow> (string \<times> string) list \<Rightarrow> (string \<times> 'a resource_scheme) list
    \<Rightarrow> (string \<times> 'a resource_scheme) list action" where
  "comm_hints cx pns scope cls [] found = returns found"
| "comm_hints cx pns scope cls ((name, ty) # rest) found =
     andthen (make_comm_hint cx name pns scope) (\<lambda>rn.
     comm_hints cx pns scope cls rest (dict_set (full rn) (cls rn ty) found))"

definition default_hints :: hint_set where
  "default_hints = \<lparr>h_advertise = [], h_subscribe = [], h_service = [], h_client = []\<rparr>"

definition make_comm_hints ::
  "ctx \<Rightarrow> hint_set \<Rightarrow> scope
    \<Rightarrow> ((string \<times> topic) list \<times> (string \<times> service) list) action" where
  "make_comm_hints cx hints scope =
     reading (\<lambda>st. let pns = private_ns st scope in
     andthen (comm_hints cx pns scope Topic (h_advertise hints) []) (\<lambda>topics.
     andthen (comm_hints cx pns scope Topic (h_subscribe hints) topics) (\<lambda>topics.
     andthen (comm_hints cx pns scope Service (h_service hints) []) (\<lambda>services.
     andthen (comm_hints cx pns scope Service (h_client hints) services) (\<lambda>services.
     returns (topics, services))))))"

subsection \<open>Tag handlers\<close>

text \<open>
  Each handler takes the recursive call \<^verbatim>\<open>self._analyse_tree\<close> as its first
  argument. \<^verbatim>\<open>_node_tag\<close> ends with a call of \<^verbatim>\<open>self._make_missing_links\<close>, a
  method the class does not define.
\<close>

type_synonym walker = "tag list \<Rightarrow> scope \<Rightarrow> subst \<Rightarrow> unit action"

definition node_tag :: "walker \<Rightarrow> ctx \<Rightarrow> tag \<Rightarrow> condition \<Rightarrow> scope \<Rightarrow> subst \<Rightarrow> unit action" where
  "node_tag analyse cx tag condition scope sub =
     andthen (resolve_strict cx sub (attr tag ''package'')) (\<lambda>pkg.
     andthen (resolve_strict cx sub (attr tag ''type'')) (\<lambda>exe.
     andthen (resolve_strict cx sub (attr tag ''argv'')) (\<lambda>args.
     if \<not> truthy pkg \<or> \<not> truthy exe
     then raises (ConfigurationError ''node tag is missing pkg or type'')
     else
     andthen (lift (get_node cx (or_else pkg []) (or_else exe []) args)) (\<lambda>node.
     andthen (resolve_strict cx sub (attr tag ''name'')) (\<lambda>name.
     andthen (resolve_strict cx sub (attr tag ''namespace'')) (\<lambda>ns.
     andthen (make_node cx scope node name ns args condition) (\<lambda>new_scope.
     andthen (analyse (t_children tag) new_scope sub) (\<lambda>_.
     reading (\<lambda>st.
     let hints = (case builder_hints cx (private_ns st new_scope) of
                    Some h \<Rightarrow> h | None \<Rightarrow> default_hints) in
     andthen (make_comm_hints cx hints new_scope) (\<lambda>(topics, services).
     andthen (make_topics cx new_scope topics) (\<lambda>_.
     andthen (make_services cx new_scope services) (\<lambda>_.
     missing_attribute ''_make_missing_links'')))))))))))) "

definition new_arguments :: "(string option \<times> string option) list \<Rightarrow> nat action" where
  "new_arguments d st = (Return (length (arg_tables st)), st\<lparr>arg_tables := arg_tables st @ [d]\<rparr>)"

definition include_tag :: "walker \<Rightarrow> ctx \<Rightarrow> tag \<Rightarrow> condition \<Rightarrow> scope \<Rightarrow> subst \<Rightarrow> unit action" where
  "include_tag analyse cx tag condition scope sub =
     andthen (resolve_strict cx sub (attr tag ''file'')) (\<lambda>filepath.
     andthen (resolve_strict cx sub (attr tag ''namespace'')) (\<lambda>ns.
     andthen (resolve_strict cx sub (attr tag ''pass_all_args'')) (\<lambda>pass_all_args.
     case sources_get_file cx filepath of
       None \<Rightarrow>
         (case filepath of
            None \<Rightarrow> raises (TypeError ''cannot concatenate'')
          | Some f \<Rightarrow> raises (ConfigurationError (''cannot find launch file: '' @ f)))
     | Some launch_file \<Rightarrow>
         (case lf_tree launch_file of
            None \<Rightarrow> raises (ConfigurationError (''missing parse tree: '' @ lf_id launch_file))
          | Some tree \<Rightarrow>
              reading (\<lambda>st.
              andthen (new_arguments (if truthy pass_all_args
                         then arg_tables st ! s_arguments scope else [])) (\<lambda>args.
              andthen (child cx scope ns condition (Some launch_file) (Some args)) (\<lambda>new_scope.
              andthen (analyse (t_children tag) new_scope sub) (\<lambda>_.
              analyse tree new_scope
                \<lparr>sub_arguments = args, sub_dirname = lf_dirname launch_file\<rparr>))))))))"

definition remap_tag :: "ctx \<Rightarrow> tag \<Rightarrow> condition \<Rightarrow> scope \<Rightarrow> subst \<Rightarrow> unit action" where
  "remap_tag cx tag condition scope sub =
     (if t_children tag \<noteq> [] then raises AssertionError
      else if condition \<noteq> CTrue then log_error ''cannot resolve conditional remap''
      else
        andthen (resolve_strict cx sub (attr tag ''origin'')) (\<lambda>origin.
        andthen (resolve_strict cx sub (attr tag ''target'')) (\<lambda>target.
        remap cx scope origin target)))"

definition param_tag :: "ctx \<Rightarrow> tag \<Rightarrow> condition \<Rightarrow> scope \<Rightarrow> subst \<Rightarrow> unit action" where
  "param_tag cx tag condition scope sub =
     (if t_children tag \<noteq> [] then raises AssertionError
      else
        andthen (resolve_strict cx sub (attr tag ''name'')) (\<lambda>name.
        andthen (resolve_strict cx sub (attr tag ''type'')) (\<lambda>ptype.
        andthen
          (case attr tag ''value'' of
             Some v \<Rightarrow> returns (Some v)
           | None \<Rightarrow>
               (case attr tag ''textfile'' of
                  Some f \<Rightarrow>
                    (case read_file cx f of
                       Some contents \<Rightarrow> returns (Some contents)
                     | None \<Rightarrow> raises (ConfigurationError (''cannot read file: '' @ f)))
                | None \<Rightarrow>
                    if attr tag ''binfile'' \<noteq> None then returns None
                    else if attr tag ''command'' \<noteq> None then returns None
                    else unbound_name ''value'')) (\<lambda>value.
        (\<lambda>st. case make_params cx scope name ptype value condition st of
                 (Raise (ValueError m), st') \<Rightarrow> (Raise (ConfigurationError m), st')
               | r \<Rightarrow> r)))))"

definition rosparam_tag :: "ctx \<Rightarrow> tag \<Rightarrow> condition \<Rightarrow> scope \<Rightarrow> subst \<Rightarrow> unit action" where
  "rosparam_tag cx tag condition scope sub =
     (if t_children tag \<noteq> [] then raises AssertionError
      else
        andthen (resolve_strict cx sub (attr tag ''command'')) (\<lambda>command.
        andthen (resolve_strict cx sub (attr tag ''namespace'')) (\<lambda>ns.
        andthen (resolve_strict cx sub (attr tag ''file'')) (\<lambda>filepath.
        andthen (resolve_strict cx sub (attr tag ''name'')) (\<lambda>name.
        if command = Some ''load'' then
          andthen
            (if truthy filepath then
               (case read_file cx (or_else filepath []) of
                  Some contents \<Rightarrow> returns (Some contents)
                | None \<Rightarrow>
                    raises (ConfigurationError (''cannot read file: '' @ or_else filepath [])))
             else
               andthen (resolve_strict cx sub (attr tag ''substitute'')) (\<lambda>substitute.
               if truthy substitute then resolve_strict cx sub (Some (t_text tag))
               else returns (Some (t_text tag)))) (\<lambda>value.
          make_rosparam cx scope name ns value condition)
        else if command = Some ''delete'' then remove_param cx scope name ns condition
        else returns ())))))"

definition group_tag :: "walker \<Rightarrow> ctx \<Rightarrow> tag \<Rightarrow> condition \<Rightarrow> scope \<Rightarrow> subst \<Rightarrow> unit action" where
  "group_tag analyse cx tag condition scope sub =
     andthen (resolve_strict cx sub (attr tag ''namespace'')) (\<lambda>ns.
     andthen (child cx scope ns condition None None) (\<lambda>new_scope.
     analyse (t_children tag) new_scope sub))"

definition set_argument :: "nat \<Rightarrow> string option \<Rightarrow> string option \<Rightarrow> unit action" where
  "set_argument a k v =
     modify (\<lambda>st. st\<lparr>arg_tables := (arg_tables st)[a := dict_set k v (arg_tables st ! a)]\<rparr>)"

definition arg_tag :: "ctx \<Rightarrow> tag \<Rightarrow> condition \<Rightarrow> scope \<Rightarrow> subst \<Rightarrow> unit action" where
  "arg_tag cx tag condition scope sub =
     (if t_children tag \<noteq> [] then raises AssertionError
      else if s_conditions scope \<noteq> [] \<or> condition \<noteq> CTrue
      then raises (ConfigurationError ''cannot resolve conditional arg'')
      else if attr tag ''value'' \<noteq> None then
        andthen (resolve_strict cx sub (attr tag ''value'')) (\<lambda>value.
        set_argument (s_arguments scope) (attr tag ''name'') value)
      else
        andthen (resolve_strict cx sub (attr tag ''default'')) (\<lambda>value.
        reading (\<lambda>st.
        if map_of (arg_tables st ! s_arguments scope) (attr tag ''name'') \<in> {None, Some None}
        then set_argument (s_arguments scope) (attr tag ''name'') value
        else returns ())))"

definition leaf_tag :: "tag \<Rightarrow> unit action" where
  "leaf_tag tag = (if t_children tag \<noteq> [] then raises AssertionError else returns ())"

text \<open>
  The handler is found by \<^verbatim>\<open>getattr(self, "_" + tag.tag + "_tag")\<close>: a tag name with
  no handler raises \<^verbatim>\<open>AttributeError\<close>.
\<close>

definition dispatch :: "walker \<Rightarrow> ctx \<Rightarrow> tag \<Rightarrow> condition \<Rightarrow> scope \<Rightarrow> subst \<Rightarrow> unit action" where
  "dispatch analyse cx tag condition scope sub =
     (let n = t_tag tag in
      if n = ''node'' then node_tag analyse cx tag condition scope sub
      else if n = ''include'' then include_tag analyse cx tag condition scope sub
      else if n = ''remap'' then remap_tag cx tag condition scope sub
      else if n = ''param'' then param_tag cx tag condition scope sub
      else if n = ''rosparam'' then rosparam_tag cx tag condition scope sub
      else if n = ''group'' then group_tag analyse cx tag condition scope sub
      else if n = ''arg'' then arg_tag cx tag condition scope sub
      else if n = ''env'' \<or> n = ''machine'' then leaf_tag tag
      else if n = ''test'' then returns ()
      else missing_attribute (''_'' @ n @ ''_tag''))"

subsection \<open>The dispatch loop\<close>

text \<open>
  \<^verbatim>\<open>except (ConfigurationError, SubstitutionError) as e: self.errors.append(e.value)\<close>
\<close>

definition catch_errors :: "unit action \<Rightarrow> unit action" where
  "catch_errors m st =
     (case m st of
        (Raise (ConfigurationError v), st') \<Rightarrow> log_error v st'
      | (Raise (SubstitutionError v), st') \<Rightarrow> log_error v st'
      | r \<Rightarrow> r)"

text \<open>The body of the \<^verbatim>\<open>try\<close> block, for one tag.\<close>

definition try_tag :: "walker \<Rightarrow> ctx \<Rightarrow> tag \<Rightarrow> scope \<Rightarrow> subst \<Rightarrow> unit action" where
  "try_tag analyse cx tag scope sub =
     andthen (tag_condition cx (t_condition tag) sub) (\<lambda>condition.
     if condition = CFalse then returns ()
     else dispatch analyse cx tag condition scope sub)"

text \<open>
  \<^verbatim>\<open>_analyse_tree\<close>, on the children of a tree node. The first argument bounds the
  depth of nested calls, as the recursion limit of the interpreter does: an include
  can lead back to the file that includes it, and the walk then ends with
  \<^verbatim>\<open>RuntimeError\<close>.
\<close>

fun analyse_tree :: "ctx \<Rightarrow> nat \<Rightarrow> tag list \<Rightarrow> scope \<Rightarrow> subst \<Rightarrow> unit action" where
  "analyse_tree cx 0 tags scope sub = raises (RuntimeError ''maximum recursion depth exceeded'')"
| "analyse_tree cx (Suc depth) [] scope sub = returns ()"
| "analyse_tree cx (Suc depth) (tag # rest) scope sub =
     (if t_tag tag = ''error'' then
        andthen (log_error (t_text tag)) (\<lambda>_. analyse_tree cx (Suc depth) rest scope sub)
      else
        andthen (catch_errors
          (try_tag (\<lambda>tags scope sub. analyse_tree cx depth tags scope sub) cx tag scope sub))
          (\<lambda>_. analyse_tree cx (Suc depth) rest scope sub))"

subsection \<open>One launch file\<close>

definition new_remaps :: "(string \<times> string) list \<Rightarrow> nat action" where
  "new_remaps d st =
     (Return (length (remap_tables st)), st\<lparr>remap_tables := remap_tables st @ [d]\<rparr>)"

definition new_params :: "parameter list \<Rightarrow> nat action" where
  "new_params ps st =
     (Return (length (param_lists st)), st\<lparr>param_lists := param_lists st @ [ps]\<rparr>)"

definition commit_param :: "parameter \<Rightarrow> unit action" where
  "commit_param param =
     modify (\<lambda>st. st\<lparr>cfg_parameters :=
       collection_add (full (p_rosname param)) param (cfg_parameters st)\<rparr>)"

definition add_launch :: "ctx \<Rightarrow> nat \<Rightarrow> launch_file \<Rightarrow> pyval action" where
  "add_launch cx depth launch_file =
     (if lf_language launch_file \<noteq> ''launch'' then raises AssertionError
      else
        andthen (modify (\<lambda>st. st\<lparr>cfg_roslaunch := cfg_roslaunch st @ [launch_file]\<rparr>)) (\<lambda>_.
        case lf_tree launch_file of
          None \<Rightarrow>
            andthen (log_error (''missing parse tree: '' @ lf_id launch_file)) (\<lambda>_.
            returns (VBool False))
        | Some tree \<Rightarrow>
            andthen (new_arguments []) (\<lambda>args.
            andthen (new_remaps []) (\<lambda>remaps.
            andthen (new_params []) (\<lambda>parameters.
            andthen (new_params []) (\<lambda>params.
            let sub = \<lparr>sub_arguments = args, sub_dirname = lf_dir_path launch_file\<rparr>;
                scope = \<lparr>s_launch_file = launch_file, s_namespace = ''/'', s_node = None,
                  s_remaps = remaps, s_parameters = parameters, s_arguments = args,
                  s_conditions = [], s_params = params\<rparr> in
            andthen (analyse_tree cx depth tree scope sub) (\<lambda>_.
            reading (\<lambda>st.
            andthen (for_each commit_param (param_lists st ! parameters)) (\<lambda>_.
            returns VNone)))))))))"

section \<open>An environment for concrete launch files\<close>

text \<open>
  To run the model on a concrete launch file the external collaborators are
  instantiated: names are resolved by joining them to the namespace (a leading
  \<^verbatim>\<open>/\<close> is global, a leading \<^verbatim>\<open>~\<close> private) and then remapped; the evaluator
  knows the conditions \<^verbatim>\<open>true\<close> and \<^verbatim>\<open>false\<close>, cannot resolve any other
  condition, and returns attribute expressions as they are unless they
  start with \<^verbatim>\<open>$\<close>, which it fails on; the source finder knows one package,
  \<^verbatim>\<open>pkg\<close>, with a node \<^verbatim>\<open>talker\<close> that advertises \<^verbatim>\<open>/chatter\<close> and a node
  \<^verbatim>\<open>listener\<close> that subscribes to it; numbers are decimal digits; a YAML text is
  read as a string. The theorems below that quantify over the environment do not
  depend on these choices.
\<close>

definition example_resolve :: "string option \<Rightarrow> string \<Rightarrow> string option \<Rightarrow> exn + string" where
  "example_resolve name ns pns =
     (case name of
        None \<Rightarrow> Inl (TypeError ''name'')
      | Some n \<Rightarrow>
          if startswith n ''/'' then Inr n
          else if startswith n ''~'' then Inr (ns_join (tl n) (or_else pns ''/''))
          else Inr (ns_join n ns))"

definition example_RosName ::
  "string option \<Rightarrow> string option \<Rightarrow> string option \<Rightarrow> (string \<times> string) list option
    \<Rightarrow> exn + rosname" where
  "example_RosName name ns pns remaps =
     (case example_resolve name (or_else ns ''/'') pns of
        Inl e \<Rightarrow> Inl e
      | Inr f \<Rightarrow>
          let f' = (case remaps of
                      None \<Rightarrow> f
                    | Some r \<Rightarrow> (case map_of r f of Some t \<Rightarrow> t | None \<Rightarrow> f)) in
          Inr \<lparr>given = name, full = f',
               own = last (split_on (\<lambda>c. c = CHR ''/'') f'),
               is_private = startswith (or_else name []) ''~''\<rparr>)"

definition digit_value :: "char \<Rightarrow> nat" where
  "digit_value c = of_char c - 48"

definition example_int :: "string \<Rightarrow> string + int" where
  "example_int s =
     (if s \<noteq> [] \<and> list_all (\<lambda>c. c \<in> set ''0123456789'') s
      then Inr (int (foldl (\<lambda>n c. 10 * n + digit_value c) 0 s))
      else Inl (''invalid literal for int(): '' @ s))"

definition talker :: node_template where
  "talker = \<lparr>n_name = ''talker'', n_package = ''pkg'',
     n_rosname = \<lparr>given = Some ''talker'', full = ''/talker'', own = ''talker'',
       is_private = False\<rparr>,
     n_advertise = [\<lparr>c_name = ''/chatter'', c_namespace = None, c_type = ''std_msgs/String'',
       c_queue_size = Some 10, c_conditions = []\<rparr>],
     n_subscribe = [], n_service = [], n_client = []\<rparr>"

definition listener :: node_template where
  "listener = \<lparr>n_name = ''listener'', n_package = ''pkg'',
     n_rosname = \<lparr>given = Some ''listener'', full = ''/listener'', own = ''listener'',
       is_private = False\<rparr>,
     n_advertise = [],
     n_subscribe = [\<lparr>c_name = ''/chatter'', c_namespace = None, c_type = ''std_msgs/String'',
       c_queue_size = Some 10, c_conditions = []\<rparr>],
     n_service = [], n_client = []\<rparr>"

definition example_ctx :: ctx where
  "example_ctx = \<lparr>
     RosName = example_RosName,
     RosName_resolve = example_resolve,
     Parameter_type_of = (\<lambda>v. case v of
        VBool _ \<Rightarrow> Some ''bool'' | VInt _ \<Rightarrow> Some ''int'' | VFloat _ \<Rightarrow> Some ''double''
      | VStr _ \<Rightarrow> Some ''string'' | VDict _ \<Rightarrow> Some ''yaml'' | VList _ \<Rightarrow> Some ''yaml''
      | VNone \<Rightarrow> None),
     new_Node = (\<lambda>exe package rn. \<lparr>n_name = exe, n_package = package, n_rosname = rn,
        n_advertise = [], n_subscribe = [], n_service = [], n_client = []\<rparr>),
     ev_condition = (\<lambda>args dir e.
        if e = ''true'' then Inr (VBool True)
        else if e = ''false'' then Inr (VBool False)
        else Inr VNone),
     ev_strict = (\<lambda>args dir e.
        case e of
          None \<Rightarrow> Inr None
        | Some x \<Rightarrow> if startswith x ''$'' then Inl (SubstitutionError x) else Inr (Some x)),
     sources_get_file = (\<lambda>f. None),
     sources_nodes = (\<lambda>n. if n = ''node:pkg/talker'' then Some talker
        else if n = ''node:pkg/listener'' then Some listener else None),
     sources_packages = (\<lambda>p. if p = ''package:pkg'' then Some ''pkg'' else None),
     yaml_load = (\<lambda>s. case s of None \<Rightarrow> Inl (AttributeError ''read'') | Some x \<Rightarrow> Inr (VStr x)),
     py_int = example_int,
     py_float = (\<lambda>s. Inl (''could not convert string to float: '' @ s)),
     read_file = (\<lambda>f. None),
     builder_hints = (\<lambda>n. None)\<rparr>"

definition empty_state :: state where
  "empty_state = \<lparr>remap_tables = [], arg_tables = [], param_lists = [], instances = [],
     links = [], cfg_nodes = [], cfg_topics = [], cfg_services = [], cfg_parameters = [],
     cfg_roslaunch = [], errors = []\<rparr>"

definition always :: "bool \<times> string" where
  "always = (True, ''true'')"

text \<open>
  The objects \<^verbatim>\<open>add_launch\<close> starts the walk of a file with: the argument dictionary
  of the evaluator, the remap table, the parameter list and the pending list of the
  root scope, all empty.
\<close>

definition robot_launch :: "tag list \<Rightarrow> launch_file" where
  "robot_launch tree = \<lparr>lf_id = ''robot.launch'', lf_language = ''launch'',
     lf_tree = Some tree, lf_dir_path = ''/launch'', lf_dirname = ''/launch'',
     lf_location = ''robot.launch''\<rparr>"

definition root_state :: state where
  "root_state = empty_state\<lparr>remap_tables := [[]], arg_tables := [[]],
     param_lists := [[], []]\<rparr>"

definition root_scope :: scope where
  "root_scope = \<lparr>s_launch_file = robot_launch [], s_namespace = ''/'', s_node = None,
     s_remaps = 0, s_parameters = 0, s_arguments = 0, s_conditions = [], s_params = 1\<rparr>"




text \<open>
  A launch file in which a \<^verbatim>\<open>group\<close> with a condition the evaluator cannot resolve
  wraps a \<^verbatim>\<open>node\<close> tag.
\<close>

definition conditional_group_launch :: launch_file where
  "conditional_group_launch = robot_launch
     [Tag ''group'' (True, ''$(arg gui)'') [] []
        [Tag ''node'' always [(''package'', ''pkg''), (''type'', ''talker'')] [] []]]"

text \<open>
  The calls of \<^verbatim>\<open>LaunchScope\<close> for a node \<^verbatim>\<open>talker\<close> at the root of a launch file
  and a node \<^verbatim>\<open>listener\<close> inside a group whose condition is symbolic: the talker
  has no condition and its link has none, the listener carries the condition of the
  group.
\<close>

definition sim_condition :: condition where
  "sim_condition = SourceCondition ''$(arg sim)'' ''robot.launch''"

definition unconditional_publisher :: "unit action" where
  "unconditional_publisher =
     andthen (make_node example_ctx root_scope talker None None None CTrue) (\<lambda>publisher.
     make_topics example_ctx publisher [])"

definition conditional_subscriber :: "unit action" where
  "conditional_subscriber =
     andthen unconditional_publisher (\<lambda>_.
     andthen (child example_ctx root_scope None sim_condition None None) (\<lambda>group.
     andthen (make_node example_ctx group listener None None None CTrue) (\<lambda>subscriber.
     make_topics example_ctx subscriber [])))"

text \<open>A configuration that holds the parameter \<^verbatim>\<open>/x\<close>, and a scope under a condition.\<close>

definition param_x :: parameter where
  "param_x = \<lparr>p_rosname = \<lparr>given = Some ''x'', full = ''/x'', own = ''x'', is_private = False\<rparr>,
     p_type = Some ''int'', p_value = VInt 1, p_node_scope = False, p_conditions = []\<rparr>"

definition committed_state :: state where
  "committed_state = root_state\<lparr>cfg_parameters := [(''/x'', param_x)]\<rparr>"

definition conditional_scope :: scope where
  "conditional_scope = root_scope\<lparr>s_conditions := [sim_condition]\<rparr>"



text \<open>
  A group forked from the root scope under the namespace \<^verbatim>\<open>ns\<close>, and a remap of
  \<^verbatim>\<open>a\<close> to \<^verbatim>\<open>b\<close> declared inside it.
\<close>

definition forked_scope :: scope where
  "forked_scope =
     (case fst (child example_ctx root_scope (Some ''ns'') CTrue None None root_state) of
        Return c \<Rightarrow> c
      | Raise e \<Rightarrow> root_scope)"

definition forked_state :: state where
  "forked_state = snd (child example_ctx root_scope (Some ''ns'') CTrue None None root_state)"

definition remapped_state :: state where
  "remapped_state = snd (remap example_ctx forked_scope (Some ''a'') (Some ''b'') forked_state)"

definition later_scope :: scope where
  "later_scope =
     (case fst (child example_ctx root_scope (Some ''other'') CTrue None None remapped_state) of
        Return c \<Rightarrow> c
      | Raise e \<Rightarrow> root_scope)"

definition later_state :: state where
  "later_state =
     snd (child example_ctx root_scope (Some ''other'') CTrue None None remapped_state)"








text \<open>An action keeps a component of the state when no run of it changes that component.\<close>

definition keeps :: "(state \<Rightarrow> 'b) \<Rightarrow> 'a action \<Rightarrow> bool" where
  "keeps f m = (\<forall>st. f (snd (m st)) = f st)"

text \<open>
  A launch file that declares the parameter \<^verbatim>\<open>x\<close> and then deletes it, under no
  condition.
\<close>

definition declare_then_delete :: launch_file where
  "declare_then_delete = robot_launch
     [Tag ''param'' always [(''name'', ''x''), (''value'', ''1'')] [] [],
      Tag ''rosparam'' always [(''command'', ''delete''), (''name'', ''x'')] [] []]"



















section \<open>Lemmas about the operations\<close>

lemma catch_errors_cases:
  "catch_errors m st =
     (case m st of
        (Raise (ConfigurationError v), st') \<Rightarrow> (Return (), st'\<lparr>errors := errors st' @ [v]\<rparr>)
      | (Raise (SubstitutionError v), st') \<Rightarrow> (Return (), st'\<lparr>errors := errors st' @ [v]\<rparr>)
      | r \<Rightarrow> r)"
  by (simp add: catch_errors_def log_error_def modify_def
      split: prod.splits outcome.splits exn.splits)

lemma namespace_pure:
  "namespace cx self ns private st = (r, st') \<Longrightarrow> st' = st"
  by (auto simp: namespace_def Let_def lift_def returns_def raises_def
      split: if_splits sum.splits)

lemma child_returns:
  assumes "child cx parent ns condition launch args st = (Return c, st1)"
  shows "s_remaps c = length (remap_tables st)"
    and "s_params c = length (param_lists st)"
    and "s_parameters c = s_parameters parent"
    and "s_node c = None"
    and "s_conditions c = s_conditions parent @ (if condition = CTrue then [] else [condition])"
    and "st1 = st\<lparr>remap_tables := remap_tables st @ [remap_tables st ! s_remaps parent],
                   param_lists := param_lists st @ [param_lists st ! s_params parent]\<rparr>"
proof -
  obtain r where ns: "namespace cx parent ns False st = (r, st)"
    using namespace_pure by (cases "namespace cx parent ns False st") auto
  from assms ns obtain ns' where r: "r = Return ns'"
    by (cases r) (auto simp: child_def andthen_def)
  from assms ns r
  have c: "c = \<lparr>s_launch_file = (case launch of Some l \<Rightarrow> l | None \<Rightarrow> s_launch_file parent),
        s_namespace = ns', s_node = None, s_remaps = length (remap_tables st),
        s_parameters = s_parameters parent,
        s_arguments = (case args of Some a \<Rightarrow> a | None \<Rightarrow> s_arguments parent),
        s_conditions = s_conditions parent @ (if condition = CTrue then [] else [condition]),
        s_params = length (param_lists st)\<rparr>"
    and s: "st1 = st\<lparr>remap_tables := remap_tables st @ [remap_tables st ! s_remaps parent],
                   param_lists := param_lists st @ [param_lists st ! s_params parent]\<rparr>"
    by (auto simp: child_def andthen_def copy_remaps_def copy_params_def returns_def)
  from c show "s_remaps c = length (remap_tables st)" by simp
  from c show "s_params c = length (param_lists st)" by simp
  from c show "s_parameters c = s_parameters parent" by simp
  from c show "s_node c = None" by simp
  from c show "s_conditions c =
      s_conditions parent @ (if condition = CTrue then [] else [condition])" by simp
  from s show "st1 = st\<lparr>remap_tables := remap_tables st @ [remap_tables st ! s_remaps parent],
                   param_lists := param_lists st @ [param_lists st ! s_params parent]\<rparr>" .
qed

lemma remove_param_unchanged:
  "snd (remove_param cx self name ns condition st) = st"
  by (simp add: remove_param_def reading_def andthen_def lift_def returns_def raises_def
      missing_attribute_def Let_def split: sum.splits option.splits)

lemma lookup_resource_literal:
  "CHR ''?'' \<notin> set name \<Longrightarrow>
   lookup_resource name ty collection hints = Inr (collection_get collection name)"
  by (simp add: lookup_resource_def lookup_resource_with_def)

section \<open>Unresolved conditions\<close>

lemma tag_condition_unresolved:
  "ev_condition cx (arg_tables st ! sub_arguments sub) (sub_dirname sub) (snd c) = Inr VNone
   \<Longrightarrow> tag_condition cx c sub st = (Raise (NameError ''config''), st)"
  by (simp add: tag_condition_def reading_def andthen_def lift_def returns_def
      unbound_name_def raises_def)

lemma tag_condition_never_symbolic:
  "fst (tag_condition cx c sub st) \<noteq> Return (SourceCondition e l)"
  by (simp add: tag_condition_def reading_def andthen_def lift_def returns_def
      unbound_name_def raises_def split: sum.splits)

text \<open>
  Claim C1, evaluated on the code. The claim says that a tag whose condition the
  evaluator cannot resolve gets a symbolic condition and that its subtree is resolved
  under it. In the code the unresolved branch of \<^verbatim>\<open>_condition\<close> reads the unbound
  name \<^verbatim>\<open>config\<close>: for the launch file with a conditional group around a node, the
  build ends with \<^verbatim>\<open>NameError\<close>, which the dispatch loop does not catch, and no node
  instance exists.
\<close>

theorem unresolved_condition_aborts:
  "fst (add_launch example_ctx 10 conditional_group_launch empty_state) =
     Raise (NameError ''config'')
   \<and> instances (snd (add_launch example_ctx 10 conditional_group_launch empty_state)) = []
   \<and> cfg_nodes (snd (add_launch example_ctx 10 conditional_group_launch empty_state)) = []"
  by code_simp

section \<open>Conditions of topics and services\<close>

text \<open>
  Claim C2, evaluated on the code. The claim says that a link whose process has no
  condition makes the condition list of the topic that link's own list and stops the
  computation, so that an unconditional process with an unconditional link leaves the
  topic unconditional. In the code \<^verbatim>\<open>break\<close> leaves the loop over the publishers
  only: the loop over the subscribers still runs and appends to the list the topic now
  shares with the publisher's link. After the unconditional talker alone the topic has
  no condition; after the conditional listener has subscribed, the topic carries the
  listener's condition, and so does the talker's link.
\<close>

theorem unconditional_publisher_conditional_topic:
  "fst (conditional_subscriber root_state) = Return ()
   \<and> map (\<lambda>e. r_conditions (snd e)) (cfg_topics (snd (unconditional_publisher root_state)))
       = [[]]
   \<and> map i_conditions (instances (snd (conditional_subscriber root_state)))
       = [[], [sim_condition]]
   \<and> map l_conditions (links (snd (unconditional_publisher root_state))) = [[]]
   \<and> map (\<lambda>e. (fst e, publishers (snd e), subscribers (snd e), r_conditions (snd e)))
        (cfg_topics (snd (conditional_subscriber root_state)))
       = [(''/chatter'', [0], [1], [sim_condition])]
   \<and> map l_conditions (links (snd (conditional_subscriber root_state)))
       = [[sim_condition], []]"
  by code_simp

section \<open>The dispatch loop and its errors\<close>





section \<open>One entity per resolved name\<close>

lemma resolve_ns_pure:
  "resolve_ns cx self ns st = (r, st') \<Longrightarrow> st' = st"
  by (auto simp: resolve_ns_def lift_def returns_def raises_def split: if_splits sum.splits)











section \<open>Forked scopes and their remap tables\<close>

lemma remap_changes_own_table_only:
  assumes "remap cx c source target st = (r, st')"
  shows "length (remap_tables st') = length (remap_tables st)"
    and "a \<noteq> s_remaps c \<Longrightarrow> remap_tables st' ! a = remap_tables st ! a"
  using assms
  by (auto simp: remap_def Let_def andthen_def lift_def returns_def raises_def modify_def
      split: sum.splits)

text \<open>
  Claim C5. A scope forked by \<^verbatim>\<open>child\<close> has a remap table of its own, a new
  dictionary that starts as a copy of the parent's. A remap declared in the fork
  changes no table that existed before the fork, so neither the parent's nor that of
  any sibling forked earlier; and a sibling forked from the parent after the remap
  starts from the parent's table, which does not hold the mapping.
\<close>

theorem forked_remaps_independent:
  assumes ok: "s_remaps parent < length (remap_tables st)"
    and fork: "child cx parent ns condition launch args st = (Return c, st1)"
    and decl: "remap cx c source target st1 = (r, st2)"
  shows "s_remaps c \<noteq> s_remaps parent
    \<and> remap_tables st1 ! s_remaps c = remap_tables st ! s_remaps parent
    \<and> (\<forall>a < length (remap_tables st). remap_tables st2 ! a = remap_tables st ! a)
    \<and> (child cx parent ns' condition' launch' args' st2 = (Return s, st3) \<longrightarrow>
         s_remaps s \<noteq> s_remaps c
         \<and> remap_tables st3 ! s_remaps s = remap_tables st ! s_remaps parent
         \<and> remap_tables st3 ! s_remaps c = remap_tables st2 ! s_remaps c)"
proof -
  note f = child_returns[OF fork]
  note d = remap_changes_own_table_only[OF decl]
  have len1: "length (remap_tables st1) = Suc (length (remap_tables st))"
    using f(6) by simp
  have old1: "\<And>a. a < length (remap_tables st) \<Longrightarrow> remap_tables st1 ! a = remap_tables st ! a"
    using f(6) by (simp add: nth_append)
  have old2: "\<And>a. a < length (remap_tables st) \<Longrightarrow> remap_tables st2 ! a = remap_tables st ! a"
    using d(2) f(1) old1 by simp
  have 1: "s_remaps c \<noteq> s_remaps parent"
    using ok f(1) by simp
  have 2: "remap_tables st1 ! s_remaps c = remap_tables st ! s_remaps parent"
    using f(1) f(6) by simp
  have 4: "s_remaps s \<noteq> s_remaps c
         \<and> remap_tables st3 ! s_remaps s = remap_tables st ! s_remaps parent
         \<and> remap_tables st3 ! s_remaps c = remap_tables st2 ! s_remaps c"
    if later: "child cx parent ns' condition' launch' args' st2 = (Return s, st3)"
  proof -
    note g = child_returns[OF later]
    have len2: "length (remap_tables st2) = Suc (length (remap_tables st))"
      using d(1) len1 by simp
    have "s_remaps s \<noteq> s_remaps c"
      using g(1) f(1) len2 by simp
    moreover have "remap_tables st3 ! s_remaps s = remap_tables st ! s_remaps parent"
      using g(1) g(6) old2[OF ok] by simp
    moreover have "remap_tables st3 ! s_remaps c = remap_tables st2 ! s_remaps c"
      using g(6) f(1) len2 by (simp add: nth_append)
    ultimately show ?thesis by blast
  qed
  from 1 2 old2 4 show ?thesis by blast
qed

theorem forked_remaps_independent_witness:
  "s_remaps root_scope < length (remap_tables root_state)
   \<and> child example_ctx root_scope (Some ''ns'') CTrue None None root_state
       = (Return forked_scope, forked_state)
   \<and> remap example_ctx forked_scope (Some ''a'') (Some ''b'') forked_state
       = (Return (), remapped_state)
   \<and> child example_ctx root_scope (Some ''other'') CTrue None None remapped_state
       = (Return later_scope, later_state)
   \<and> remap_tables remapped_state ! s_remaps forked_scope = [(''/ns/a'', ''/ns/b'')]
   \<and> s_remaps forked_scope \<noteq> s_remaps root_scope
   \<and> remap_tables forked_state ! s_remaps forked_scope
       = remap_tables root_state ! s_remaps root_scope
   \<and> remap_tables remapped_state ! s_remaps root_scope
       = remap_tables root_state ! s_remaps root_scope
   \<and> remap_tables later_state ! s_remaps later_scope
       = remap_tables root_state ! s_remaps root_scope
   \<and> remap_tables later_state ! s_remaps later_scope = []"
proof -
  have a: "s_remaps root_scope < length (remap_tables root_state)"
    by code_simp
  have b: "child example_ctx root_scope (Some ''ns'') CTrue None None root_state
       = (Return forked_scope, forked_state)"
    by code_simp
  have c: "remap example_ctx forked_scope (Some ''a'') (Some ''b'') forked_state
       = (Return (), remapped_state)"
    by code_simp
  have d: "child example_ctx root_scope (Some ''other'') CTrue None None remapped_state
       = (Return later_scope, later_state)"
    by code_simp
  have e: "remap_tables remapped_state ! s_remaps forked_scope = [(''/ns/a'', ''/ns/b'')]"
    by code_simp
  have f: "remap_tables later_state ! s_remaps later_scope = []"
    by code_simp
  note t = forked_remaps_independent[OF a b c,
      of "Some ''other''" CTrue None None later_scope later_state]
  from t have 1: "s_remaps forked_scope \<noteq> s_remaps root_scope" by blast
  from t have 2: "remap_tables forked_state ! s_remaps forked_scope
       = remap_tables root_state ! s_remaps root_scope" by blast
  from t a have 3: "remap_tables remapped_state ! s_remaps root_scope
       = remap_tables root_state ! s_remaps root_scope" by blast
  from t d have 4: "remap_tables later_state ! s_remaps later_scope
       = remap_tables root_state ! s_remaps root_scope" by blast
  from a b c d e f 1 2 3 4 show ?thesis by blast
qed

section \<open>Flattening nested parameter values\<close>












section \<open>Deleting parameters\<close>

lemma resolve_strict_pure:
  "resolve_strict cx sub e st = (r, st') \<Longrightarrow> st' = st"
  by (auto simp: resolve_strict_def reading_def lift_def returns_def raises_def
      split: sum.splits)

text \<open>
  Claim C7. When a \<^verbatim>\<open>rosparam\<close> delete is under a condition (its own condition is
  not \<^verbatim>\<open>True\<close>, or the condition list of the scope is not empty), \<^verbatim>\<open>remove_param\<close>
  changes nothing: the state after it is the state before it, and when the parameter
  is in the collection of the configuration the call returns normally. The same holds
  for the handler of the tag once its command has resolved to \<^verbatim>\<open>delete\<close>.
\<close>

theorem remove_param_guarded_noop:
  "condition \<noteq> CTrue \<or> s_conditions self \<noteq> [] \<Longrightarrow>
   snd (remove_param cx self name ns condition st) = st
   \<and> (RosName_resolve cx name
         (ns_join (or_else ns (private_ns st self)) (private_ns st self))
         (Some ''/rosparam'') = Inr n
       \<and> collection_get (cfg_parameters st) n = Some p
       \<longrightarrow> remove_param cx self name ns condition st = (Return (), st))
   \<and> (resolve_strict cx sub (attr tag ''command'') st = (Return (Some ''delete''), st)
       \<longrightarrow> snd (rosparam_tag cx tag condition self sub st) = st)"
proof (intro conjI impI)
  show "snd (remove_param cx self name ns condition st) = st"
    by (rule remove_param_unchanged)
next
  assume "condition \<noteq> CTrue \<or> s_conditions self \<noteq> []"
    and "RosName_resolve cx name
         (ns_join (or_else ns (private_ns st self)) (private_ns st self))
         (Some ''/rosparam'') = Inr n
       \<and> collection_get (cfg_parameters st) n = Some p"
  then show "remove_param cx self name ns condition st = (Return (), st)"
    by (auto simp: remove_param_def reading_def andthen_def lift_def returns_def Let_def)
next
  assume cmd: "resolve_strict cx sub (attr tag ''command'') st = (Return (Some ''delete''), st)"
  show "snd (rosparam_tag cx tag condition self sub st) = st"
  proof (cases "t_children tag \<noteq> []")
    case True
    then show ?thesis by (simp add: rosparam_tag_def raises_def)
  next
    case False
    obtain r1 where r1: "resolve_strict cx sub (attr tag ''namespace'') st = (r1, st)"
      using resolve_strict_pure by (cases "resolve_strict cx sub (attr tag ''namespace'') st") auto
    obtain r2 where r2: "resolve_strict cx sub (attr tag ''file'') st = (r2, st)"
      using resolve_strict_pure by (cases "resolve_strict cx sub (attr tag ''file'') st") auto
    obtain r3 where r3: "resolve_strict cx sub (attr tag ''name'') st = (r3, st)"
      using resolve_strict_pure by (cases "resolve_strict cx sub (attr tag ''name'') st") auto
    from False cmd r1 r2 r3 show ?thesis
      by (simp add: rosparam_tag_def andthen_def remove_param_unchanged
          split: outcome.splits)
  qed
qed

theorem remove_param_guarded_noop_witness:
  "s_conditions conditional_scope \<noteq> []
   \<and> RosName_resolve example_ctx (Some ''x'')
        (ns_join (or_else None (private_ns committed_state conditional_scope))
           (private_ns committed_state conditional_scope))
        (Some ''/rosparam'') = Inr ''/x''
   \<and> collection_get (cfg_parameters committed_state) ''/x'' = Some param_x
   \<and> remove_param example_ctx conditional_scope (Some ''x'') None CTrue committed_state
       = (Return (), committed_state)"
proof -
  have g: "s_conditions conditional_scope \<noteq> []"
    by code_simp
  then have a: "CTrue \<noteq> CTrue \<or> s_conditions conditional_scope \<noteq> []"
    by blast
  have b: "RosName_resolve example_ctx (Some ''x'')
        (ns_join (or_else None (private_ns committed_state conditional_scope))
           (private_ns committed_state conditional_scope))
        (Some ''/rosparam'') = Inr ''/x''"
    by code_simp
  have c: "collection_get (cfg_parameters committed_state) ''/x'' = Some param_x"
    by code_simp
  from remove_param_guarded_noop[OF a, of example_ctx "Some ''x''" None committed_state
      "''/x''" param_x] b c
  have "remove_param example_ctx conditional_scope (Some ''x'') None CTrue committed_state
       = (Return (), committed_state)"
    by blast
  with g b c show ?thesis by blast
qed

section \<open>Looking up topics and services\<close>



lemma lookup_resource_from_collection:
  "lookup_resource name ty collection hints = Inr (Some r) \<Longrightarrow>
   collection_get collection name = Some r"
proof (cases "CHR ''?'' \<in> set name")
  case False
  assume "lookup_resource name ty collection hints = Inr (Some r)"
  with False show ?thesis by (simp add: lookup_resource_literal)
next
  case True
  assume found: "lookup_resource name ty collection hints = Inr (Some r)"
  show ?thesis
  proof (cases hints)
    case (Cons h hs)
    with True found show ?thesis
      by (cases h) (simp add: lookup_resource_def lookup_resource_with_def re_match_def)
  next
    case Nil
    with True found show ?thesis
      by (cases collection)
         (auto simp: lookup_resource_def lookup_resource_with_def re_match_def)
  qed
qed




section \<open>Parameters are committed after the walk\<close>

lemma keeps_returns: "keeps f (returns x)"
  by (simp add: keeps_def returns_def)

lemma keeps_raises: "keeps f (raises e)"
  by (simp add: keeps_def raises_def)

lemma keeps_lift: "keeps f (lift r)"
  by (cases r) (simp_all add: lift_def keeps_returns keeps_raises)

lemma keeps_unbound_name: "keeps f (unbound_name n)"
  by (simp add: unbound_name_def keeps_raises)

lemma keeps_missing_attribute: "keeps f (missing_attribute n)"
  by (simp add: missing_attribute_def keeps_raises)

lemma keeps_andthen:
  "keeps f m \<Longrightarrow> (\<And>x. keeps f (k x)) \<Longrightarrow> keeps f (andthen m k)"
  by (auto simp: keeps_def andthen_def split: prod.splits outcome.splits)
     (metis snd_conv)+

lemma keeps_reading: "(\<And>s. keeps f (k s)) \<Longrightarrow> keeps f (reading k)"
  by (simp add: keeps_def reading_def)

lemma keeps_modify: "(\<And>st. f (g st) = f st) \<Longrightarrow> keeps f (modify g)"
  by (simp add: keeps_def modify_def)

lemma keeps_if: "keeps f a \<Longrightarrow> keeps f b \<Longrightarrow> keeps f (if c then a else b)"
  by simp

lemmas keeps_basic = keeps_returns keeps_raises keeps_lift keeps_unbound_name
  keeps_missing_attribute keeps_andthen keeps_reading keeps_modify keeps_if

lemma keeps_for_each: "(\<And>x. keeps f (body x)) \<Longrightarrow> keeps f (for_each body xs)"
  by (induction xs) (auto intro!: keeps_basic)

lemma keeps_namespace: "keeps cfg_parameters (namespace cx self ns private)"
  unfolding keeps_def by (metis namespace_pure prod.collapse)

lemma keeps_resolve_ns: "keeps cfg_parameters (resolve_ns cx self ns)"
  by (auto simp: keeps_def resolve_ns_def returns_def lift_def raises_def split: sum.splits)

lemma keeps_copy_params: "keeps cfg_parameters (copy_params parent)"
  by (simp add: keeps_def copy_params_def)

lemma keeps_copy_remaps: "keeps cfg_parameters (copy_remaps r)"
  by (simp add: keeps_def copy_remaps_def)

lemma keeps_child: "keeps cfg_parameters (child cx self ns condition launch args)"
  unfolding child_def
  by (intro keeps_basic keeps_namespace keeps_copy_params keeps_copy_remaps)

lemma keeps_remap: "keeps cfg_parameters (remap cx self source target)"
  by (auto simp: keeps_def remap_def Let_def andthen_def lift_def returns_def raises_def
      modify_def split: sum.splits)

lemma keeps_append_param: "keeps cfg_parameters (append_param a p)"
  unfolding append_param_def by (intro keeps_basic) simp

lemma keeps_rehome: "keeps cfg_parameters (rehome cx plist pns conds ps)"
  by (induction ps) (auto intro!: keeps_basic keeps_append_param)

lemma keeps_new_instance: "keeps cfg_parameters (new_instance i)"
  by (simp add: keeps_def new_instance_def)

lemma keeps_make_node:
  "keeps cfg_parameters (make_node cx self node name ns args condition)"
  unfolding make_node_def Let_def
  by (intro keeps_basic keeps_namespace keeps_copy_params keeps_copy_remaps
      keeps_new_instance keeps_rehome)

lemma keeps_yaml_items:
  "keeps cfg_parameters (yaml_items cx self private pns node_scope conditions items)"
  by (induction items) (auto simp: Let_def intro!: keeps_basic keeps_append_param)

lemma keeps_yaml_param:
  "keeps cfg_parameters (yaml_param cx self name value conditions private)"
  unfolding yaml_param_def
  by (cases name) (auto intro!: keeps_basic keeps_yaml_items)

lemma keeps_make_params:
  "keeps cfg_parameters (make_params cx self name ptype value condition)"
  unfolding make_params_def Let_def
  by (cases "value")
     (auto intro!: keeps_basic keeps_yaml_param keeps_append_param split: prod.splits)

lemma keeps_make_rosparam:
  "keeps cfg_parameters (make_rosparam cx self name ns value condition)"
  unfolding make_rosparam_def Let_def
  by (auto intro!: keeps_basic keeps_yaml_param
      split: sum.splits exn.splits option.splits pyval.splits)

lemma keeps_remove_param:
  "keeps cfg_parameters (remove_param cx self name ns condition)"
  by (simp add: keeps_def remove_param_unchanged)

lemma keeps_new_link: "keeps cfg_parameters (new_link l)"
  by (simp add: keeps_def new_link_def)

lemma keeps_make_topic_link:
  "keeps cfg_parameters (make_topic_link cx self node name ns pns ty queue conditions hints)"
  unfolding make_topic_link_def Let_def
  by (intro keeps_basic keeps_resolve_ns keeps_new_link) simp

lemma keeps_make_service_link:
  "keeps cfg_parameters (make_service_link cx self node name ns pns ty conditions hints)"
  unfolding make_service_link_def Let_def
  by (intro keeps_basic keeps_resolve_ns keeps_new_link) simp

lemma keeps_update_topic_conditions: "keeps cfg_parameters (update_topic_conditions key)"
  by (simp add: keeps_def update_topic_conditions_def set_link_conditions_def Let_def
      split: option.splits prod.splits)

lemma keeps_update_service_conditions: "keeps cfg_parameters (update_service_conditions key)"
  by (simp add: keeps_def update_service_conditions_def set_link_conditions_def Let_def
      split: option.splits prod.splits)

lemma keeps_advertise_call:
  "keeps cfg_parameters (advertise_call cx self node pns hints call)"
  unfolding advertise_call_def Let_def
  by (intro keeps_basic keeps_make_topic_link keeps_update_topic_conditions)
     (simp_all add: update_instance_def)

lemma keeps_subscribe_call:
  "keeps cfg_parameters (subscribe_call cx self node pns hints call)"
  unfolding subscribe_call_def Let_def
  by (intro keeps_basic keeps_make_topic_link keeps_update_topic_conditions)
     (simp_all add: update_instance_def)

lemma keeps_service_call:
  "keeps cfg_parameters (service_call cx self node pns hints call)"
  unfolding service_call_def Let_def
  by (intro keeps_basic keeps_make_service_link keeps_update_service_conditions)
     (simp_all add: update_instance_def)

lemma keeps_client_call:
  "keeps cfg_parameters (client_call cx self node pns hints call)"
  unfolding client_call_def Let_def
  by (intro keeps_basic keeps_make_service_link keeps_update_service_conditions)
     (simp_all add: update_instance_def)

lemma keeps_make_topics: "keeps cfg_parameters (make_topics cx self hints)"
  unfolding make_topics_def Let_def
  by (cases "s_node self")
     (auto intro!: keeps_basic keeps_for_each keeps_advertise_call keeps_subscribe_call)

lemma keeps_make_services: "keeps cfg_parameters (make_services cx self hints)"
  unfolding make_services_def Let_def
  by (cases "s_node self")
     (auto intro!: keeps_basic keeps_for_each keeps_service_call keeps_client_call)

lemma keeps_log_error: "keeps cfg_parameters (log_error msg)"
  unfolding log_error_def by (intro keeps_basic) simp

lemma keeps_resolve_strict: "keeps cfg_parameters (resolve_strict cx sub e)"
  unfolding resolve_strict_def by (intro keeps_basic)

lemma keeps_tag_condition: "keeps cfg_parameters (tag_condition cx c sub)"
  unfolding tag_condition_def by (intro keeps_basic)

lemma keeps_make_comm_hint: "keeps cfg_parameters (make_comm_hint cx name pns scope)"
  unfolding make_comm_hint_def Let_def
  by (cases "s_node scope") (auto intro!: keeps_basic keeps_resolve_ns)

lemma keeps_comm_hints: "keeps cfg_parameters (comm_hints cx pns scope cls hs found)"
  by (induction hs arbitrary: found) (auto intro!: keeps_basic keeps_make_comm_hint)

lemma keeps_make_comm_hints: "keeps cfg_parameters (make_comm_hints cx hints scope)"
  unfolding make_comm_hints_def Let_def
  by (intro keeps_basic keeps_comm_hints)

lemma keeps_node_tag:
  assumes "\<And>tags scope sub. keeps cfg_parameters (analyse tags scope sub)"
  shows "keeps cfg_parameters (node_tag analyse cx tag condition scope sub)"
  unfolding node_tag_def Let_def
  by (auto intro!: keeps_basic keeps_resolve_strict keeps_make_node assms
      keeps_make_comm_hints keeps_make_topics keeps_make_services split: prod.splits)

lemma keeps_new_arguments: "keeps cfg_parameters (new_arguments d)"
  by (simp add: keeps_def new_arguments_def)

lemma keeps_include_tag:
  assumes "\<And>tags scope sub. keeps cfg_parameters (analyse tags scope sub)"
  shows "keeps cfg_parameters (include_tag analyse cx tag condition scope sub)"
  unfolding include_tag_def
  by (auto intro!: keeps_basic keeps_resolve_strict keeps_new_arguments keeps_child assms
      split: option.splits)

lemma keeps_remap_tag: "keeps cfg_parameters (remap_tag cx tag condition scope sub)"
  unfolding remap_tag_def
  by (auto intro!: keeps_basic keeps_resolve_strict keeps_log_error keeps_remap)

lemma keeps_param_tag: "keeps cfg_parameters (param_tag cx tag condition scope sub)"
proof -
  have wrap: "keeps cfg_parameters
      (\<lambda>st. case make_params cx scope name ptype v condition st of
               (Raise (ValueError m), st') \<Rightarrow> (Raise (ConfigurationError m), st')
             | r \<Rightarrow> r)" for name ptype v
    using keeps_make_params[of cx scope name ptype v condition]
    by (auto simp: keeps_def split: prod.splits outcome.splits exn.splits) (metis snd_conv)+
  show ?thesis
    unfolding param_tag_def
    by (auto intro!: keeps_basic keeps_resolve_strict wrap split: option.splits)
qed

lemma keeps_rosparam_tag: "keeps cfg_parameters (rosparam_tag cx tag condition scope sub)"
  unfolding rosparam_tag_def
  by (auto intro!: keeps_basic keeps_resolve_strict keeps_make_rosparam keeps_remove_param
      split: option.splits)

lemma keeps_group_tag:
  assumes "\<And>tags scope sub. keeps cfg_parameters (analyse tags scope sub)"
  shows "keeps cfg_parameters (group_tag analyse cx tag condition scope sub)"
  unfolding group_tag_def
  by (intro keeps_basic keeps_resolve_strict keeps_child assms)

lemma keeps_set_argument: "keeps cfg_parameters (set_argument a k v)"
  unfolding set_argument_def by (intro keeps_basic) simp

lemma keeps_arg_tag: "keeps cfg_parameters (arg_tag cx tag condition scope sub)"
  unfolding arg_tag_def
  by (auto intro!: keeps_basic keeps_resolve_strict keeps_set_argument)

lemma keeps_leaf_tag: "keeps cfg_parameters (leaf_tag tag)"
  unfolding leaf_tag_def by (intro keeps_basic)

lemma keeps_dispatch:
  assumes "\<And>tags scope sub. keeps cfg_parameters (analyse tags scope sub)"
  shows "keeps cfg_parameters (dispatch analyse cx tag condition scope sub)"
  unfolding dispatch_def Let_def
  by (intro keeps_basic keeps_node_tag keeps_include_tag keeps_remap_tag keeps_param_tag
      keeps_rosparam_tag keeps_group_tag keeps_arg_tag keeps_leaf_tag assms)

lemma keeps_try_tag:
  assumes "\<And>tags scope sub. keeps cfg_parameters (analyse tags scope sub)"
  shows "keeps cfg_parameters (try_tag analyse cx tag scope sub)"
  unfolding try_tag_def
  by (intro keeps_basic keeps_tag_condition keeps_dispatch assms)

lemma keeps_catch_errors:
  "keeps cfg_parameters m \<Longrightarrow> keeps cfg_parameters (catch_errors m)"
  by (auto simp: keeps_def catch_errors_cases split: prod.splits outcome.splits exn.splits)
     (metis snd_conv)+

lemma keeps_analyse_tree: "keeps cfg_parameters (analyse_tree cx d tags scope sub)"
proof (induction cx d tags scope sub rule: analyse_tree.induct)
  case (1 cx tags scope sub)
  show ?case by (simp add: keeps_raises)
next
  case (2 cx depth scope sub)
  show ?case by (simp add: keeps_returns)
next
  case (3 cx depth tag rest scope sub)
  show ?case
  proof (cases "t_tag tag = ''error''")
    case True
    with 3(1) show ?thesis
      by (auto intro!: keeps_basic keeps_log_error)
  next
    case False
    have inner: "\<And>tags scope sub. keeps cfg_parameters (analyse_tree cx depth tags scope sub)"
      using 3(2)[OF False] .
    have "keeps cfg_parameters (catch_errors
        (try_tag (\<lambda>tags scope sub. analyse_tree cx depth tags scope sub) cx tag scope sub))"
      by (intro keeps_catch_errors keeps_try_tag inner)
    with False 3(3)[OF False] show ?thesis
      by (auto intro!: keeps_basic)
  qed
qed

lemma remove_param_missing:
  assumes "RosName_resolve cx name
         (ns_join (or_else ns (private_ns st self)) (private_ns st self))
         (Some ''/rosparam'') = Inr n"
    and "collection_get (cfg_parameters st) n = None"
  shows "remove_param cx self name ns condition st =
     (Raise (ConfigurationError (''missing parameter: '' @ n)), st)"
  using assms
  by (simp add: remove_param_def reading_def andthen_def lift_def returns_def raises_def
      Let_def)

text \<open>
  Claim C9. \<^verbatim>\<open>remove_param\<close> looks the resolved name up before it looks at the
  conditions: when the name is not in the parameter collection of the configuration it
  raises \<^verbatim>\<open>ConfigurationError\<close> with the message \<^verbatim>\<open>missing parameter:\<close> and the
  name, whatever the condition of the tag and the conditions of the scope are. The walk
  of a file never changes that collection, which \<^verbatim>\<open>add_launch\<close> fills only after the
  walk: the collection a delete sees is the one the walk started with, so a parameter
  that only the file under way declares is missing for every delete in that file.
\<close>

theorem delete_of_uncommitted_parameter:
  "(RosName_resolve cx name
         (ns_join (or_else ns (private_ns st self)) (private_ns st self))
         (Some ''/rosparam'') = Inr n
     \<and> collection_get (cfg_parameters st) n = None
     \<longrightarrow> remove_param cx self name ns condition st =
           (Raise (ConfigurationError (''missing parameter: '' @ n)), st))
   \<and> cfg_parameters (snd (analyse_tree cx d tags scope sub st)) = cfg_parameters st
   \<and> cfg_parameters (snd (make_params cx self pname ptype v condition st)) = cfg_parameters st
   \<and> cfg_parameters (snd (make_rosparam cx self name ns body condition st)) = cfg_parameters st"
  using remove_param_missing[of cx name ns st self n condition]
    keeps_analyse_tree[of cx d tags scope sub]
    keeps_make_params[of cx self pname ptype v condition]
    keeps_make_rosparam[of cx self name ns body condition]
  by (simp add: keeps_def)

text \<open>
  In the file that declares \<^verbatim>\<open>x\<close> and then deletes it the delete is logged as an
  error, and \<^verbatim>\<open>x\<close> is committed at the end.
\<close>

theorem delete_of_uncommitted_parameter_witness:
  "RosName_resolve example_ctx (Some ''x'')
         (ns_join (or_else None (private_ns root_state root_scope))
            (private_ns root_state root_scope))
         (Some ''/rosparam'') = Inr ''/x''
   \<and> collection_get (cfg_parameters root_state) ''/x'' = None
   \<and> remove_param example_ctx root_scope (Some ''x'') None sim_condition root_state =
        (Raise (ConfigurationError (''missing parameter: '' @ ''/x'')), root_state)
   \<and> fst (add_launch example_ctx 10 declare_then_delete empty_state) = Return VNone
   \<and> errors (snd (add_launch example_ctx 10 declare_then_delete empty_state))
        = [''missing parameter: /x'']
   \<and> map fst (cfg_parameters (snd (add_launch example_ctx 10 declare_then_delete empty_state)))
        = [''/x'']"
proof -
  have a: "RosName_resolve example_ctx (Some ''x'')
         (ns_join (or_else None (private_ns root_state root_scope))
            (private_ns root_state root_scope))
         (Some ''/rosparam'') = Inr ''/x''"
    by code_simp
  have b: "collection_get (cfg_parameters root_state) ''/x'' = None"
    by code_simp
  from delete_of_uncommitted_parameter[of example_ctx "Some ''x''" None root_state root_scope
      "''/x''" sim_condition] a b
  have c: "remove_param example_ctx root_scope (Some ''x'') None sim_condition root_state =
        (Raise (ConfigurationError (''missing parameter: '' @ ''/x'')), root_state)"
    by blast
  have d: "fst (add_launch example_ctx 10 declare_then_delete empty_state) = Return VNone"
    by code_simp
  have e: "errors (snd (add_launch example_ctx 10 declare_then_delete empty_state))
        = [''missing parameter: /x'']"
    by code_simp
  have f: "map fst (cfg_parameters (snd (add_launch example_ctx 10 declare_then_delete
        empty_state))) = [''/x'']"
    by code_simp
  from a b c d e f show ?thesis by blast
qed

section \<open>Pending private parameters\<close>






end
